theory Spec2Isabelle
  imports
    Main
    "HOL-Library.Char_ord"
    "HOL-Library.List_Lexorder"
    "HOL-Library.Sublist"
begin

section \<open>Data model of \<^verbatim>\<open>scripts/fetch_touchpoints.py\<close>\<close>

text \<open>
  Python text is modelled as \<open>string\<close>, one \<open>char\<close> per code point (so the model covers
  text whose code points are below 256). With \<open>Char_ord\<close> and \<open>List_Lexorder\<close> the order
  on \<open>string\<close> is the lexicographic order by code point, which is how Python compares
  \<^verbatim>\<open>str\<close> values. A JSON value that is either \<^verbatim>\<open>null\<close> or a string is a
  \<open>string option\<close>, with \<open>None\<close> for Python's \<^verbatim>\<open>None\<close>.

  A touchpoint is the dict literal that \<^verbatim>\<open>main\<close> appends to
  \<^verbatim>\<open>company_touchpoints\<close>: the keys \<^verbatim>\<open>date\<close>, \<^verbatim>\<open>type\<close>, \<^verbatim>\<open>detail\<close> and
  \<^verbatim>\<open>source\<close> are always present, \<^verbatim>\<open>contact\<close> only on some paths. The value under
  \<^verbatim>\<open>date\<close> may be \<^verbatim>\<open>None\<close> or the empty string; the other values are strings.
\<close>

record touchpoint =
  tp_date :: "string option"
  tp_type :: string
  tp_detail :: string
  tp_source :: string
  tp_contact :: "string option"

datatype error = TypeError | KeyError | AttributeError

section \<open>Python string helpers\<close>

text \<open>
  \<^verbatim>\<open>str.strip()\<close> removes leading and trailing whitespace. Among the code points below
  256 the whitespace characters of Python are 9 to 13, 28 to 32, 133 and 160.
\<close>

definition is_space :: "char \<Rightarrow> bool" where
  "is_space c = (let n = (of_char c :: nat) in
     (9 \<le> n \<and> n \<le> 13) \<or> (28 \<le> n \<and> n \<le> 32) \<or> n = 133 \<or> n = 160)"

definition str_strip :: "string \<Rightarrow> string" where
  "str_strip s = rev (dropWhile is_space (rev (dropWhile is_space s)))"

text \<open>\<^verbatim>\<open>sub in s\<close> for two strings.\<close>

fun str_contains :: "string \<Rightarrow> string \<Rightarrow> bool" where
  "str_contains sub [] = (sub = [])"
| "str_contains sub (c # cs) = (prefix sub (c # cs) \<or> str_contains sub cs)"

text \<open>
  \<^verbatim>\<open>s.split(sep)\<close> for a separator that is not empty (the two separators of the source
  are literals): the pieces between the occurrences of \<open>sep\<close>, found from the left
  without overlap.
\<close>

function str_split :: "string \<Rightarrow> string \<Rightarrow> string list" where
  "str_split sep s =
     (if sep \<noteq> [] \<and> prefix sep s then [] # str_split sep (drop (length sep) s)
      else case s of
        [] \<Rightarrow> [[]]
      | c # cs \<Rightarrow> (case str_split sep cs of [] \<Rightarrow> [[c]] | p # ps \<Rightarrow> (c # p) # ps))"
  by pat_completeness auto
termination
  by (relation "measure (\<lambda>(sep, s). length s)") (auto simp: prefix_def)

declare str_split.simps [simp del]

text \<open>\<^verbatim>\<open>s.replace("Z", "+00:00")\<close>.\<close>

definition replace_Z :: "string \<Rightarrow> string" where
  "replace_Z s = concat (map (\<lambda>c. if c = CHR ''Z'' then ''+00:00'' else [c]) s)"

section \<open>External calls\<close>

text \<open>
  What one attempt of \<^verbatim>\<open>urlopen\<close> followed by \<^verbatim>\<open>json.loads\<close> can give: the parsed
  body, an \<^verbatim>\<open>HTTPError\<close> with its status code, or any other exception (a network error,
  a body that is not JSON). \<open>api n\<close> is the outcome of the \<open>n\<close>-th attempt of the call.

  \<^verbatim>\<open>hubspot_get\<close> and \<^verbatim>\<open>hubspot_post\<close> call themselves again after
  \<^verbatim>\<open>time.sleep(10)\<close> when the status is 429, from inside the handler of the
  \<^verbatim>\<open>HTTPError\<close>: every retry is one more nested call. The interpreter bounds the depth
  of the nesting. When its recursion limit leaves no room for the calls that
  \<^verbatim>\<open>urlopen\<close> makes, the \<^verbatim>\<open>RecursionError\<close> is raised inside the \<^verbatim>\<open>try\<close>, is
  caught by \<^verbatim>\<open>except Exception\<close>, and the call returns \<^verbatim>\<open>None\<close>; that call gets
  no answer and is not counted as an attempt. \<open>depth\<close> is the number of nested calls for
  which there is room; it depends on the recursion limit of the interpreter (1000 unless
  it is changed) and on the frames below the first call.

  The model returns the result (\<open>None\<close> for Python's \<^verbatim>\<open>None\<close>), the number of attempts
  made and the seconds slept.
\<close>

datatype 'a response = Body 'a | HTTPError nat | OtherException

fun hubspot_get ::
  "(nat \<Rightarrow> 'a response) \<Rightarrow> nat \<Rightarrow> nat \<Rightarrow> nat \<Rightarrow> 'a option \<times> nat \<times> nat" where
  "hubspot_get api 0 n slept = (None, n, slept)"
| "hubspot_get api (Suc depth) n slept =
     (case api n of
        Body data \<Rightarrow> (Some data, Suc n, slept)
      | HTTPError code \<Rightarrow>
          if code = 429 then hubspot_get api depth (Suc n) (slept + 10)
          else (None, Suc n, slept)
      | OtherException \<Rightarrow> (None, Suc n, slept))"

fun hubspot_post ::
  "(nat \<Rightarrow> 'a response) \<Rightarrow> nat \<Rightarrow> nat \<Rightarrow> nat \<Rightarrow> 'a option \<times> nat \<times> nat" where
  "hubspot_post api 0 n slept = (None, n, slept)"
| "hubspot_post api (Suc depth) n slept =
     (case api n of
        Body data \<Rightarrow> (Some data, Suc n, slept)
      | HTTPError code \<Rightarrow>
          if code = 429 then hubspot_post api depth (Suc n) (slept + 10)
          else (None, Suc n, slept)
      | OtherException \<Rightarrow> (None, Suc n, slept))"

section \<open>Touchpoint Normalizer\<close>

subsection \<open>Dictionaries and formatting\<close>

text \<open>
  A dict of the JSON input whose values are \<^verbatim>\<open>null\<close> or strings (numbers are carried as
  their text). \<^verbatim>\<open>d.get(k)\<close> gives \<^verbatim>\<open>None\<close> for a missing key,
  \<^verbatim>\<open>d.get(k, default)\<close> gives the default only when the key is missing: a stored
  \<^verbatim>\<open>null\<close> comes back as \<^verbatim>\<open>None\<close>. \<open>truthy\<close> is Python's truth value of such a
  value, and \<open>fmt\<close> is how an f-string prints it.
\<close>

type_synonym pydict = "string \<rightharpoonup> string option"

definition dict_get :: "pydict \<Rightarrow> string \<Rightarrow> string option" where
  "dict_get d k = (case d k of None \<Rightarrow> None | Some v \<Rightarrow> v)"

definition dict_get_or :: "pydict \<Rightarrow> string \<Rightarrow> string \<Rightarrow> string option" where
  "dict_get_or d k dflt = (case d k of None \<Rightarrow> Some dflt | Some v \<Rightarrow> v)"

definition truthy :: "string option \<Rightarrow> bool" where
  "truthy v = (case v of None \<Rightarrow> False | Some s \<Rightarrow> s \<noteq> [])"

definition fmt :: "string option \<Rightarrow> string" where
  "fmt v = (case v of None \<Rightarrow> ''None'' | Some s \<Rightarrow> s)"

text \<open>
  \<^verbatim>\<open>str.lower()\<close> on the code points below 256: the letters A to Z and the accented
  capitals 192 to 222 except the multiplication sign 215 move up by 32.
\<close>

definition lower_char :: "char \<Rightarrow> char" where
  "lower_char c = (let n = (of_char c :: nat) in
     if (65 \<le> n \<and> n \<le> 90) \<or> (192 \<le> n \<and> n \<le> 222 \<and> n \<noteq> 215) then char_of (n + 32) else c)"

definition str_lower :: "string \<Rightarrow> string" where
  "str_lower s = map lower_char s"

subsection \<open>\<^verbatim>\<open>truncate\<close>\<close>

text \<open>
  \<^verbatim>\<open>truncate(text, max_len=120)\<close>. The name \<open>truncate\<close> belongs to the record package,
  hence the suffix. Line feed and carriage return become spaces, the text is stripped, and
  a text longer than \<open>max_len\<close> is cut to \<open>max_len\<close> characters followed by three dots.
\<close>

definition truncate_text :: "string option \<Rightarrow> nat \<Rightarrow> string" where
  "truncate_text text max_len =
     (case text of
        None \<Rightarrow> []
      | Some t \<Rightarrow>
          if t = [] then []
          else
            let text' = str_strip
              (map (\<lambda>c. if c = CHR 0x0A \<or> c = CHR 0x0D then CHR '' '' else c) t)
            in if length text' > max_len then take max_len text' @ ''...'' else text')"

text \<open>
  The two places of the engagement loop that call \<^verbatim>\<open>truncate\<close> when a touchpoint is
  built: the detail of a note and the detail of a communication.
\<close>

definition note_detail :: "pydict \<Rightarrow> string" where
  "note_detail eng_props =
     (let body = truncate_text (dict_get_or eng_props ''hs_note_body'' []) 150
      in if body \<noteq> [] then ''Note: '' @ body else ''Note added'')"

definition communication_detail :: "pydict \<Rightarrow> string" where
  "communication_detail eng_props =
     (let channel = dict_get_or eng_props ''hs_communication_channel_type'' [];
          body = truncate_text (dict_get_or eng_props ''hs_communication_body'' []) 100
      in if truthy channel then ''['' @ fmt channel @ ''] '' @ body else body)"

subsection \<open>Touchpoints from the properties of a contact\<close>

definition touch ::
  "string option \<Rightarrow> string \<Rightarrow> string \<Rightarrow> string \<Rightarrow> string \<Rightarrow> touchpoint" where
  "touch d ty detail src email =
     \<lparr>tp_date = d, tp_type = ty, tp_detail = detail, tp_source = src, tp_contact = Some email\<rparr>"

definition first_touch_detail :: "pydict \<Rightarrow> string" where
  "first_touch_detail props =
     (let source = dict_get_or props ''hs_analytics_source'' ''Unknown'';
          sd1 = dict_get_or props ''hs_analytics_source_data_1'' [];
          sd2 = dict_get_or props ''hs_analytics_source_data_2'' [];
          first_url = dict_get_or props ''hs_analytics_first_url'' [];
          first_ref = dict_get_or props ''hs_analytics_first_referrer'' []
      in ''Source: '' @ fmt source
         @ (if truthy sd1 then '' | '' @ fmt sd1 else [])
         @ (if truthy sd2 then '' ('' @ fmt sd2 @ '')'' else [])
         @ (if truthy first_url then '' | URL: '' @ fmt first_url else [])
         @ (if truthy first_ref then '' | Referrer: '' @ fmt first_ref else []))"

text \<open>
  The appends of the body of the contact loop between the lookup and the engagements, in
  the order of the source: analytics, lifecycle dates, sales activity, conversions, CRM
  creation, signup.
\<close>

definition contact_property_touchpoints :: "string \<Rightarrow> pydict \<Rightarrow> pydict \<Rightarrow> touchpoint list" where
  "contact_property_touchpoints email props contact =
     (let first_touch = dict_get props ''hs_analytics_first_timestamp'';
          lead_date = dict_get props ''hs_lifecyclestage_lead_date'';
          opp_date = dict_get props ''hs_lifecyclestage_opportunity_date'';
          cust_date = dict_get props ''hs_lifecyclestage_customer_date'';
          first_eng = dict_get props ''hs_sa_first_engagement_date'';
          last_sales = dict_get props ''hs_last_sales_activity_date'';
          latest_meeting = dict_get props ''hs_latest_meeting_activity'';
          first_conv = dict_get props ''first_conversion_event_name'';
          first_conv_date = dict_get props ''first_conversion_date'';
          recent_conv = dict_get props ''recent_conversion_event_name'';
          recent_conv_date = dict_get props ''recent_conversion_date'';
          hs_created = dict_get props ''createdate'';
          cognito_date = dict_get_or contact ''created'' []
      in (if truthy first_touch
          then [touch first_touch ''First Touch'' (first_touch_detail props)
                  ''HubSpot Analytics'' email]
          else [])
       @ (if truthy lead_date
          then [touch lead_date ''Lifecycle: Became Lead''
                  (email @ '' lifecycle stage changed to Lead'') ''HubSpot Lifecycle'' email]
          else [])
       @ (if truthy opp_date
          then [touch opp_date ''Lifecycle: Became Opportunity''
                  (email @ '' lifecycle stage changed to Opportunity'') ''HubSpot Lifecycle''
                  email]
          else [])
       @ (if truthy cust_date
          then [touch cust_date ''Lifecycle: Became Customer''
                  (email @ '' lifecycle stage changed to Customer'') ''HubSpot Lifecycle''
                  email]
          else [])
       @ (if truthy first_eng
          then [touch first_eng ''First Sales Engagement''
                  (''First sales activity recorded for '' @ email) ''HubSpot Sales'' email]
          else [])
       @ (if truthy last_sales
          then [touch last_sales ''Last Sales Activity''
                  (''Most recent sales activity for '' @ email) ''HubSpot Sales'' email]
          else [])
       @ (if truthy latest_meeting
          then [touch latest_meeting ''Meeting'' (''Meeting with '' @ email)
                  ''HubSpot Meetings'' email]
          else [])
       @ (if truthy first_conv \<and> truthy first_conv_date
          then [touch first_conv_date ''First Form Submission'' (''Form: '' @ fmt first_conv)
                  ''HubSpot Forms'' email]
          else [])
       @ (if truthy recent_conv \<and> truthy recent_conv_date \<and> recent_conv_date \<noteq> first_conv_date
          then [touch recent_conv_date ''Form Submission'' (''Form: '' @ fmt recent_conv)
                  ''HubSpot Forms'' email]
          else [])
       @ (if truthy hs_created
          then [touch hs_created ''HubSpot Contact Created'' (email @ '' added to HubSpot CRM'')
                  ''HubSpot CRM'' email]
          else [])
       @ (if truthy cognito_date
          then [touch cognito_date ''Platform Signup'' (email @ '' created Arda account'')
                  ''Cognito'' email]
          else []))"

subsection \<open>Deal stage history\<close>

definition STAGE_MAP :: "(string \<times> string) list" where
  "STAGE_MAP =
     [(''appointmentscheduled'', ''Prospect''),
      (''1499838171'', ''Approached''),
      (''qualifiedtobuy'', ''Lead''),
      (''presentationscheduled'', ''Demo Scheduled''),
      (''1955958510'', ''No-Show/Reschedule Demo''),
      (''decisionmakerboughtin'', ''Demo Follow-Up''),
      (''1955580622'', ''Budgetary quote sent''),
      (''1559099077'', ''Payment Link Sent''),
      (''1499827945'', ''Free Trial''),
      (''1731122907'', ''Freemium''),
      (''closedwon'', ''Closed Won''),
      (''contractsent'', ''Ping Later''),
      (''closedlost'', ''Closed Lost''),
      (''1499784890'', ''Churn''),
      (''1499784891'', ''Unlikely''),
      (''1499827944'', ''On Hold''),
      (''1718686448'', ''Internal+Friends and Family''),
      (''2025131723'', ''Interested in a pilot'')]"

text \<open>
  One entry of the stage history of a deal:
  \<^verbatim>\<open>STAGE_MAP.get(value, value)\<close> and the f-string of the detail. A key of
  \<^verbatim>\<open>STAGE_MAP\<close> is a string, so a \<^verbatim>\<open>None\<close> value passes through.
\<close>

definition stage_name_of :: "string option \<Rightarrow> string option" where
  "stage_name_of v =
     (case v of
        None \<Rightarrow> None
      | Some s \<Rightarrow> (case map_of STAGE_MAP s of None \<Rightarrow> Some s | Some label \<Rightarrow> Some label))"

definition stage_change_detail :: "string \<Rightarrow> string option \<Rightarrow> string option \<Rightarrow> string" where
  "stage_change_detail deal_name stage_name source_type =
     ''\"'' @ deal_name @ ''\" moved to: '' @ fmt stage_name @ '' (via '' @ fmt source_type @ '')''"

definition stage_change_touchpoint :: "string \<Rightarrow> pydict \<Rightarrow> touchpoint" where
  "stage_change_touchpoint deal_name entry =
     (let ts = dict_get entry ''timestamp'';
          v = dict_get_or entry ''value'' [];
          stage_name = stage_name_of v;
          source_type = dict_get_or entry ''sourceType'' []
      in \<lparr>tp_date = ts, tp_type = ''Deal Stage Change'',
           tp_detail = stage_change_detail deal_name stage_name source_type,
           tp_source = ''HubSpot Deal'', tp_contact = None\<rparr>)"

subsection \<open>The loop over the contacts of a customer\<close>

text \<open>
  The journey of a customer as loaded from the JSON file: its scalar entries and its
  contacts. The remote system enters through three functions: the result list of the
  contact search of \<^verbatim>\<open>get_contact_by_email\<close> (\<open>None\<close> when the call returned
  \<^verbatim>\<open>None\<close>), and the touchpoints appended by the two parts of \<^verbatim>\<open>main\<close> that fetch
  and format engagements (for a CRM id and an email) and deals (for a journey), each of
  which may raise.
\<close>

record hs_contact =
  hs_id :: string
  hs_properties :: pydict

record journey =
  j_fields :: pydict
  j_contacts :: "pydict list"

record crm =
  contact_search :: "string \<Rightarrow> hs_contact list option"
  engagement_touchpoints :: "string \<Rightarrow> string \<Rightarrow> error + touchpoint list"
  deal_touchpoints :: "journey \<Rightarrow> error + touchpoint list"

definition get_contact_by_email :: "crm \<Rightarrow> string \<Rightarrow> hs_contact option" where
  "get_contact_by_email remote email =
     (case contact_search remote email of
        None \<Rightarrow> None
      | Some [] \<Rightarrow> None
      | Some (c # cs) \<Rightarrow> Some c)"

text \<open>\<^verbatim>\<open>contact["email"].strip().lower()\<close>.\<close>

definition contact_email :: "pydict \<Rightarrow> error + string" where
  "contact_email contact =
     (case contact ''email'' of
        None \<Rightarrow> Inl KeyError
      | Some None \<Rightarrow> Inl AttributeError
      | Some (Some e) \<Rightarrow> Inr (str_lower (str_strip e)))"

text \<open>The touchpoint appended when the contact is not found in the CRM.\<close>

definition not_found_touchpoint :: "string \<Rightarrow> pydict \<Rightarrow> touchpoint" where
  "not_found_touchpoint email contact =
     \<lparr>tp_date = dict_get_or contact ''created'' [], tp_type = ''Platform Signup'',
      tp_detail = email @ '' created Cognito account'', tp_source = ''Cognito'',
      tp_contact = None\<rparr>"

fun contact_loop ::
  "crm \<Rightarrow> pydict list \<Rightarrow> touchpoint list \<Rightarrow> (string \<times> string) list
     \<Rightarrow> error + touchpoint list \<times> (string \<times> string) list" where
  "contact_loop remote [] company_touchpoints company_contact_details =
     Inr (company_touchpoints, company_contact_details)"
| "contact_loop remote (contact # contacts) company_touchpoints company_contact_details =
     (case contact_email contact of
        Inl e \<Rightarrow> Inl e
      | Inr email \<Rightarrow>
          (case get_contact_by_email remote email of
             None \<Rightarrow>
               contact_loop remote contacts
                 (company_touchpoints @ [not_found_touchpoint email contact])
                 company_contact_details
           | Some hs \<Rightarrow>
               (case engagement_touchpoints remote (hs_id hs) email of
                  Inl e \<Rightarrow> Inl e
                | Inr engagement_tps \<Rightarrow>
                    contact_loop remote contacts
                      (company_touchpoints
                         @ contact_property_touchpoints email (hs_properties hs) contact
                         @ engagement_tps)
                      (company_contact_details @ [(email, hs_id hs)]))))"

section \<open>Deduplicator/Sorter\<close>

text \<open>
  \<^verbatim>\<open>company_touchpoints.sort(key=lambda t: t.get("date") or "9999")\<close>:
  Python's \<^verbatim>\<open>or\<close> replaces the falsy values \<^verbatim>\<open>None\<close> and \<^verbatim>\<open>""\<close> by the text
  \<^verbatim>\<open>"9999"\<close>. \<^verbatim>\<open>list.sort\<close> is a stable sort, and so is \<open>sort_key\<close>.
\<close>

definition sort_date_key :: "touchpoint \<Rightarrow> string" where
  "sort_date_key t =
     (case tp_date t of None \<Rightarrow> ''9999'' | Some d \<Rightarrow> if d = [] then ''9999'' else d)"

definition sort_touchpoints :: "touchpoint list \<Rightarrow> touchpoint list" where
  "sort_touchpoints tps = sort_key sort_date_key tps"

text \<open>
  The key of the dedup loop,
  \<^verbatim>\<open>(tp.get("date", "")[:16], tp.get("type", ""), tp.get("detail", "")[:50])\<close>.
  The key \<^verbatim>\<open>date\<close> is always present, so the default of \<^verbatim>\<open>get\<close> is never used;
  when the stored value is \<^verbatim>\<open>None\<close> the slice raises \<^verbatim>\<open>TypeError\<close>.
\<close>

type_synonym dedup_key = "string \<times> string \<times> string"

definition dedup_key :: "touchpoint \<Rightarrow> error + dedup_key" where
  "dedup_key tp =
     (case tp_date tp of
        None \<Rightarrow> Inl TypeError
      | Some d \<Rightarrow> Inr (take 16 d, tp_type tp, take 50 (tp_detail tp)))"

text \<open>
  The loop over \<^verbatim>\<open>company_touchpoints\<close> with its two variables \<^verbatim>\<open>deduped\<close> and
  \<^verbatim>\<open>seen_keys\<close>.
\<close>

fun dedup_loop ::
  "touchpoint list \<Rightarrow> touchpoint list \<Rightarrow> dedup_key set \<Rightarrow> error + touchpoint list" where
  "dedup_loop [] deduped seen_keys = Inr deduped"
| "dedup_loop (tp # tps) deduped seen_keys =
     (case dedup_key tp of
        Inl e \<Rightarrow> Inl e
      | Inr key \<Rightarrow>
          if key \<notin> seen_keys
          then dedup_loop tps (deduped @ [tp]) (insert key seen_keys)
          else dedup_loop tps deduped seen_keys)"

definition dedup :: "touchpoint list \<Rightarrow> error + touchpoint list" where
  "dedup company_touchpoints = dedup_loop company_touchpoints [] {}"

definition sort_and_dedup :: "touchpoint list \<Rightarrow> error + touchpoint list" where
  "sort_and_dedup company_touchpoints = dedup (sort_touchpoints company_touchpoints)"

text \<open>
  Truthiness of \<^verbatim>\<open>tp.get("date")\<close>: a touchpoint is dated when its date is neither
  \<^verbatim>\<open>None\<close> nor the empty string.
\<close>

definition dated :: "touchpoint \<Rightarrow> bool" where
  "dated tp = (case tp_date tp of None \<Rightarrow> False | Some d \<Rightarrow> d \<noteq> [])"

section \<open>Customer records and cohorts\<close>

text \<open>
  One entry of \<^verbatim>\<open>all_touchpoint_data\<close>. The scalar values are copied from the journey
  with \<^verbatim>\<open>journey.get\<close> and may be \<^verbatim>\<open>None\<close>. The contact details are kept as the
  pairs of the normalised email and the CRM id.
\<close>

record customer =
  c_company :: string
  c_tenant_id :: "string option"
  c_lifecycle_stage :: "string option"
  c_deal_stage :: "string option"
  c_deal_amount :: "string option"
  c_first_touch :: "string option"
  c_cognito_signup :: "string option"
  c_source :: "string option"
  c_touchpoints :: "touchpoint list"
  c_contact_details :: "(string \<times> string) list"
  c_total_touchpoints :: nat

text \<open>
  The four list comprehensions that categorise the companies. A comparison of
  \<^verbatim>\<open>None\<close> with a string is false, and \<^verbatim>\<open>not c["deal_stage"]\<close> holds for
  \<^verbatim>\<open>None\<close> and for the empty string.
\<close>

datatype cohort = Closed_Won | Churned | Stalled | No_Deal

fun in_cohort :: "cohort \<Rightarrow> customer \<Rightarrow> bool" where
  "in_cohort Closed_Won c = (c_deal_stage c = Some ''Closed Won'')"
| "in_cohort Churned c = (c_deal_stage c \<in> {Some ''Churn'', Some ''Closed Lost''})"
| "in_cohort Stalled c =
     (c_deal_stage c \<in> {Some ''Demo Scheduled'', Some ''Demo Follow-Up'',
        Some ''Payment Link Sent'', Some ''On Hold'', Some ''Free Trial'', Some ''Freemium'',
        Some ''Interested in a pilot''})"
| "in_cohort No_Deal c =
     (c_deal_stage c = None \<or> c_deal_stage c = Some [] \<or> c_deal_stage c = Some ''No Deal'')"

definition cohort_members :: "cohort \<Rightarrow> customer list \<Rightarrow> customer list" where
  "cohort_members co all_touchpoint_data = filter (in_cohort co) all_touchpoint_data"

section \<open>One customer, and the loop over the journeys\<close>

text \<open>
  \<^verbatim>\<open>journey["company"]\<close> raises \<^verbatim>\<open>KeyError\<close> when the key is missing, and
  \<^verbatim>\<open>company.lower()\<close>, after the contact loop, raises \<^verbatim>\<open>AttributeError\<close> when the
  value is \<^verbatim>\<open>None\<close>. The touchpoints of the contacts and of the deals are sorted and
  deduplicated, and the record of the customer is built from the result.
\<close>

definition process_journey :: "crm \<Rightarrow> journey \<Rightarrow> error + customer" where
  "process_journey remote journey =
     (case j_fields journey ''company'' of
        None \<Rightarrow> Inl KeyError
      | Some company \<Rightarrow>
          (case contact_loop remote (j_contacts journey) [] [] of
             Inl e \<Rightarrow> Inl e
           | Inr (contact_tps, company_contact_details) \<Rightarrow>
               (case company of
                  None \<Rightarrow> Inl AttributeError
                | Some name \<Rightarrow>
                    (case deal_touchpoints remote journey of
                       Inl e \<Rightarrow> Inl e
                     | Inr deal_tps \<Rightarrow>
                         (case sort_and_dedup (contact_tps @ deal_tps) of
                            Inl e \<Rightarrow> Inl e
                          | Inr deduped \<Rightarrow>
                              Inr \<lparr>c_company = name,
                                   c_tenant_id = dict_get (j_fields journey) ''tenant_id'',
                                   c_lifecycle_stage =
                                     dict_get_or (j_fields journey) ''lifecycle_stage'' ''Unknown'',
                                   c_deal_stage = dict_get (j_fields journey) ''deal_stage'',
                                   c_deal_amount = dict_get (j_fields journey) ''deal_amount'',
                                   c_first_touch = dict_get (j_fields journey) ''first_touch'',
                                   c_cognito_signup =
                                     dict_get (j_fields journey) ''cognito_signup'',
                                   c_source = dict_get_or (j_fields journey) ''source'' ''Unknown'',
                                   c_touchpoints = deduped,
                                   c_contact_details = company_contact_details,
                                   c_total_touchpoints = length deduped\<rparr>)))))"

fun journey_loop :: "crm \<Rightarrow> journey list \<Rightarrow> customer list \<Rightarrow> error + customer list" where
  "journey_loop remote [] all_touchpoint_data = Inr all_touchpoint_data"
| "journey_loop remote (journey # journeys) all_touchpoint_data =
     (case process_journey remote journey of
        Inl e \<Rightarrow> Inl e
      | Inr c \<Rightarrow> journey_loop remote journeys (all_touchpoint_data @ [c]))"

section \<open>Falloff/Gap Analyzer\<close>

subsection \<open>Stage transitions\<close>

text \<open>
  The inner loop that fills \<^verbatim>\<open>stages_seen\<close>:
  \<^verbatim>\<open>detail.split("moved to:")[1].split("(")[0].strip()\<close> for the touchpoints of type
  \<^verbatim>\<open>Deal Stage Change\<close> whose detail contains \<^verbatim>\<open>moved to:\<close>. The index 1 exists
  because the phrase occurs, and \<^verbatim>\<open>split\<close> never returns an empty list.
\<close>

definition extract_stage :: "string \<Rightarrow> string" where
  "extract_stage detail =
     str_strip (hd (str_split ''('' (str_split ''moved to:'' detail ! 1)))"

fun stages_seen :: "touchpoint list \<Rightarrow> (string option \<times> string) list" where
  "stages_seen [] = []"
| "stages_seen (tp # tps) =
     (if tp_type tp = ''Deal Stage Change'' \<and> str_contains ''moved to:'' (tp_detail tp)
      then (tp_date tp, extract_stage (tp_detail tp)) # stages_seen tps
      else stages_seen tps)"

text \<open>
  \<^verbatim>\<open>stage_sequence_counts\<close> is a \<^verbatim>\<open>defaultdict(int)\<close>: a key that was never
  incremented counts 0. Its key is the f-string
  \<^verbatim>\<open>f"{from_stage} -> {to_stage}"\<close> with the arrow U+2192 of the source between the two
  spaces; the arrow is outside the code points of \<open>char\<close> and is written here as the three
  bytes of its UTF-8 encoding.
\<close>

type_synonym counts = "string \<rightharpoonup> nat"

definition count_of :: "counts \<Rightarrow> string \<Rightarrow> nat" where
  "count_of m k = (case m k of None \<Rightarrow> 0 | Some n \<Rightarrow> n)"

definition increment :: "string \<Rightarrow> counts \<Rightarrow> counts" where
  "increment k m = m(k \<mapsto> count_of m k + 1)"

definition arrow :: string where
  "arrow = [CHR 0xE2, CHR 0x86, CHR 0x92]"

definition transition_key :: "string \<Rightarrow> string \<Rightarrow> string" where
  "transition_key from_stage to_stage = from_stage @ '' '' @ arrow @ '' '' @ to_stage"

text \<open>
  \<^verbatim>\<open>for i in range(len(stages_seen) - 1)\<close>; the range is empty when the list is.
\<close>

definition track_stage_sequences :: "(string option \<times> string) list \<Rightarrow> counts \<Rightarrow> counts" where
  "track_stage_sequences seen stage_sequence_counts =
     fold (\<lambda>i m. increment (transition_key (snd (seen ! i)) (snd (seen ! (i + 1)))) m)
       [0..<length seen - 1] stage_sequence_counts"

definition customer_transitions :: "customer \<Rightarrow> counts \<Rightarrow> counts" where
  "customer_transitions c stage_sequence_counts =
     track_stage_sequences (stages_seen (c_touchpoints c)) stage_sequence_counts"

definition all_transitions :: "customer list \<Rightarrow> counts" where
  "all_transitions all_touchpoint_data = fold customer_transitions all_touchpoint_data Map.empty"

subsection \<open>Gaps between touchpoints\<close>

text \<open>
  \<^verbatim>\<open>datetime.fromisoformat\<close> is a function of the Python library; it enters the model
  as the parameter \<open>fromiso\<close>, which returns \<open>None\<close> where the library raises. A parsed
  value is a count of microseconds, naive or aware of its offset; subtracting a naive and
  an aware value raises \<^verbatim>\<open>TypeError\<close>. The attribute \<^verbatim>\<open>days\<close> of the difference is
  its floor in whole days. Every exception is caught by the bare \<^verbatim>\<open>except\<close> and
  becomes the result \<^verbatim>\<open>None\<close>.
\<close>

datatype datetime = Naive int | Aware int

fun days_of_difference :: "datetime \<Rightarrow> datetime \<Rightarrow> int option" where
  "days_of_difference (Naive t1) (Naive t2) = Some ((t2 - t1) div 86400000000)"
| "days_of_difference (Aware t1) (Aware t2) = Some ((t2 - t1) div 86400000000)"
| "days_of_difference _ _ = None"

definition days_between ::
  "(string \<Rightarrow> datetime option) \<Rightarrow> string \<Rightarrow> string \<Rightarrow> int option" where
  "days_between fromiso d1 d2 =
     (case fromiso (replace_Z d1) of
        None \<Rightarrow> None
      | Some dt1 \<Rightarrow>
          (case fromiso (replace_Z d2) of
             None \<Rightarrow> None
           | Some dt2 \<Rightarrow> days_of_difference dt1 dt2))"

record touchpoint_gap =
  g_company :: string
  gap_days :: int
  from_type :: string
  to_type :: string
  outcome :: "string option"

text \<open>
  The loop that fills \<^verbatim>\<open>touchpoint_gaps\<close> for one customer. \<^verbatim>\<open>prev_date\<close> starts as
  \<^verbatim>\<open>None\<close>; \<^verbatim>\<open>prev_type\<close> is assigned together with \<^verbatim>\<open>prev_date\<close> and read only
  when \<^verbatim>\<open>prev_date\<close> is set, so the two variables are one optional pair \<open>prev\<close>. A date
  stored in \<open>prev\<close> is a string that is not empty, hence truthy.
\<close>

fun gap_loop ::
  "(string \<Rightarrow> datetime option) \<Rightarrow> customer \<Rightarrow> touchpoint list \<Rightarrow> (string \<times> string) option
     \<Rightarrow> touchpoint_gap list \<Rightarrow> touchpoint_gap list" where
  "gap_loop fromiso c [] prev touchpoint_gaps = touchpoint_gaps"
| "gap_loop fromiso c (tp # tps) prev touchpoint_gaps =
     (case tp_date tp of
        None \<Rightarrow> gap_loop fromiso c tps prev touchpoint_gaps
      | Some d \<Rightarrow>
          if d \<noteq> [] \<and> tp_type tp \<noteq> ''Last Sales Activity'' then
            gap_loop fromiso c tps (Some (d, tp_type tp))
              (case prev of
                 None \<Rightarrow> touchpoint_gaps
               | Some (prev_date, prev_type) \<Rightarrow>
                   (case days_between fromiso prev_date d of
                      None \<Rightarrow> touchpoint_gaps
                    | Some gap \<Rightarrow>
                        if gap > 0 then
                          touchpoint_gaps @
                            [\<lparr>g_company = c_company c, gap_days = gap, from_type = prev_type,
                              to_type = tp_type tp, outcome = c_deal_stage c\<rparr>]
                        else touchpoint_gaps))
          else gap_loop fromiso c tps prev touchpoint_gaps)"

definition customer_gaps ::
  "(string \<Rightarrow> datetime option) \<Rightarrow> customer \<Rightarrow> touchpoint_gap list \<Rightarrow> touchpoint_gap list" where
  "customer_gaps fromiso c touchpoint_gaps =
     gap_loop fromiso c (c_touchpoints c) None touchpoint_gaps"

definition all_gaps :: "(string \<Rightarrow> datetime option) \<Rightarrow> customer list \<Rightarrow> touchpoint_gap list" where
  "all_gaps fromiso all_touchpoint_data =
     fold (customer_gaps fromiso) all_touchpoint_data []"

section \<open>Notions used to state the properties\<close>

text \<open>The value a call returns for the outcome of its last attempt.\<close>

definition result_of :: "'a response \<Rightarrow> 'a option" where
  "result_of r = (case r of Body data \<Rightarrow> Some data | _ \<Rightarrow> None)"

text \<open>
  The touchpoints the gap loop looks at, what it remembers of each, and the gap record it
  appends for two of them that follow each other.
\<close>

definition gap_eligible :: "touchpoint \<Rightarrow> bool" where
  "gap_eligible tp = (dated tp \<and> tp_type tp \<noteq> ''Last Sales Activity'')"

definition date_and_type :: "touchpoint \<Rightarrow> string \<times> string" where
  "date_and_type tp = (case tp_date tp of None \<Rightarrow> [] | Some d \<Rightarrow> d, tp_type tp)"

definition gap_between ::
  "(string \<Rightarrow> datetime option) \<Rightarrow> customer \<Rightarrow> string \<times> string \<Rightarrow> string \<times> string
     \<Rightarrow> touchpoint_gap list" where
  "gap_between fromiso c p q =
     (case days_between fromiso (fst p) (fst q) of
        None \<Rightarrow> []
      | Some gap \<Rightarrow>
          if gap > 0 then
            [\<lparr>g_company = c_company c, gap_days = gap, from_type = snd p, to_type = snd q,
              outcome = c_deal_stage c\<rparr>]
          else [])"

definition consecutive_gaps ::
  "(string \<Rightarrow> datetime option) \<Rightarrow> customer \<Rightarrow> (string \<times> string) list \<Rightarrow> touchpoint_gap list" where
  "consecutive_gaps fromiso c es =
     concat (map (\<lambda>(p, q). gap_between fromiso c p q) (zip es (tl es)))"

text \<open>How often the transitions of a customer produce the key \<open>k\<close>.\<close>

definition transitions_with_key :: "customer \<Rightarrow> string \<Rightarrow> nat" where
  "transitions_with_key c k =
     length (filter
       (\<lambda>i. transition_key (snd (stages_seen (c_touchpoints c) ! i))
               (snd (stages_seen (c_touchpoints c) ! (i + 1))) = k)
       [0..<length (stages_seen (c_touchpoints c)) - 1])"

text \<open>
  The text \<^verbatim>\<open>truncate\<close> measures: line breaks replaced and the result stripped.
\<close>

definition clean_text :: "string \<Rightarrow> string" where
  "clean_text t =
     str_strip (map (\<lambda>c. if c = CHR 0x0A \<or> c = CHR 0x0D then CHR '' '' else c) t)"

section \<open>Example data\<close>

text \<open>Touchpoints: two emails within one minute, a deal closed in the year 9999, and a
  signup without a date.\<close>

definition email_at_0 :: touchpoint where
  "email_at_0 = \<lparr>tp_date = Some ''2024-03-01T10:00:00Z'', tp_type = ''Email'',
     tp_detail = ''[EMAIL] Welcome to Arda'', tp_source = ''HubSpot Engagement'',
     tp_contact = Some ''ann@acme.com''\<rparr>"

definition email_at_30 :: touchpoint where
  "email_at_30 = \<lparr>tp_date = Some ''2024-03-01T10:00:30Z'', tp_type = ''Email'',
     tp_detail = ''[EMAIL] Welcome to Arda'', tp_source = ''HubSpot Engagement'',
     tp_contact = Some ''ann@acme.com''\<rparr>"

definition year_9999_close :: touchpoint where
  "year_9999_close = \<lparr>tp_date = Some ''9999-12-31T00:00:00Z'', tp_type = ''Deal Closed'',
     tp_detail = ''\"Acme\" closed | Final: On Hold'', tp_source = ''HubSpot Deal'',
     tp_contact = None\<rparr>"

definition undated_signup :: touchpoint where
  "undated_signup = \<lparr>tp_date = Some [], tp_type = ''Platform Signup'',
     tp_detail = ''ann@acme.com created Cognito account'', tp_source = ''Cognito'',
     tp_contact = None\<rparr>"

text \<open>An API that answers 429 to the first \<open>k\<close> attempts and then delivers \<open>d\<close>.\<close>

definition limited_then :: "nat \<Rightarrow> 'a \<Rightarrow> nat \<Rightarrow> 'a response" where
  "limited_then k d n = (if n < k then HTTPError 429 else Body d)"

text \<open>An API that answers every attempt with 429.\<close>

definition always_limited :: "nat \<Rightarrow> string response" where
  "always_limited n = HTTPError 429"

text \<open>
  Example data: a parser that knows two dates a week apart (as naive values), and a
  customer with a first touch, a sales-activity marker and a signup.
\<close>

definition two_dates :: "string \<Rightarrow> datetime option" where
  "two_dates s =
     (if s = ''2024-01-01'' then Some (Naive 0)
      else if s = ''2024-01-08'' then Some (Naive (7 * 86400000000))
      else None)"

definition acme :: customer where
  "acme = \<lparr>c_company = ''Acme'', c_tenant_id = None, c_lifecycle_stage = Some ''customer'',
     c_deal_stage = Some ''Closed Won'', c_deal_amount = None,
     c_first_touch = Some ''2024-01-01'', c_cognito_signup = Some ''2024-01-08'',
     c_source = Some ''Organic'',
     c_touchpoints =
       [\<lparr>tp_date = Some ''2024-01-01'', tp_type = ''First Touch'', tp_detail = ''Source: Organic'',
          tp_source = ''HubSpot Analytics'', tp_contact = Some ''ann@acme.com''\<rparr>,
        \<lparr>tp_date = Some ''2024-01-05'', tp_type = ''Last Sales Activity'',
          tp_detail = ''Most recent sales activity for ann@acme.com'',
          tp_source = ''HubSpot Sales'', tp_contact = Some ''ann@acme.com''\<rparr>,
        \<lparr>tp_date = Some ''2024-01-08'', tp_type = ''Platform Signup'',
          tp_detail = ''ann@acme.com created Arda account'', tp_source = ''Cognito'',
          tp_contact = Some ''ann@acme.com''\<rparr>],
     c_contact_details = [(''ann@acme.com'', ''101'')], c_total_touchpoints = 3\<rparr>"

definition single_touch :: customer where
  "single_touch = acme\<lparr>c_company := ''Solo'', c_touchpoints := [undated_signup],
     c_total_touchpoints := 1\<rparr>"

text \<open>
  Example input: a CRM that knows no contact and no deal, and journeys of one company
  with one contact, whose creation date is a string, is missing, or is \<^verbatim>\<open>null\<close>.
\<close>

definition empty_crm :: crm where
  "empty_crm = \<lparr>contact_search = (\<lambda>email. Some []),
     engagement_touchpoints = (\<lambda>contact_id email. Inr []),
     deal_touchpoints = (\<lambda>journey. Inr [])\<rparr>"

definition journey_of_contact :: "pydict \<Rightarrow> journey" where
  "journey_of_contact contact =
     \<lparr>j_fields = map_of [(''company'', Some ''Acme''), (''deal_stage'', Some ''Closed Won'')],
      j_contacts = [contact]\<rparr>"

definition contact_with_date :: pydict where
  "contact_with_date =
     map_of [(''email'', Some '' Ann@Acme.com''), (''created'', Some ''2024-01-08T09:00:00Z'')]"

definition contact_without_date :: pydict where
  "contact_without_date = map_of [(''email'', Some ''ann@acme.com'')]"

definition contact_null_date :: pydict where
  "contact_null_date = map_of [(''email'', Some ''ann@acme.com''), (''created'', None)]"

text \<open>
  Example data for the stage transitions: two entries of the stage history of the deal
  \<^verbatim>\<open>Acme Deal\<close>, and a customer whose touchpoints are the two stage changes.
\<close>

definition demo_scheduled_entry :: pydict where
  "demo_scheduled_entry =
     map_of [(''timestamp'', Some ''2024-02-01T09:00:00Z''),
             (''value'', Some ''presentationscheduled''), (''sourceType'', Some ''CRM_UI'')]"

definition closed_won_entry :: pydict where
  "closed_won_entry =
     map_of [(''timestamp'', Some ''2024-03-01T09:00:00Z''),
             (''value'', Some ''closedwon''), (''sourceType'', Some ''CRM_UI'')]"

definition acme_with_deal :: customer where
  "acme_with_deal = acme\<lparr>c_touchpoints :=
     [stage_change_touchpoint ''Acme Deal'' demo_scheduled_entry,
      stage_change_touchpoint ''Acme Deal'' closed_won_entry],
     c_total_touchpoints := 2\<rparr>"

text \<open>
  The same two entries in the stage history of a deal whose name holds the phrase of the
  detail, \<^verbatim>\<open>Acme moved to: Pro\<close>.
\<close>

definition acme_renamed_deal :: customer where
  "acme_renamed_deal = acme\<lparr>c_touchpoints :=
     [stage_change_touchpoint ''Acme moved to: Pro'' demo_scheduled_entry,
      stage_change_touchpoint ''Acme moved to: Pro'' closed_won_entry],
     c_total_touchpoints := 2\<rparr>"

text \<open>
  Example data: the properties of a contact whose first page view had a URL of 200
  characters, and a CRM that returns this contact for every email.
\<close>

definition long_url_props :: pydict where
  "long_url_props =
     map_of [(''hs_analytics_first_timestamp'', Some ''2024-01-01T00:00:00Z''),
             (''hs_analytics_first_url'', Some (replicate 200 (CHR ''a'')))]"

definition crm_with_ann :: crm where
  "crm_with_ann = \<lparr>contact_search =
       (\<lambda>email. Some [\<lparr>hs_id = ''101'', hs_properties = long_url_props\<rparr>]),
     engagement_touchpoints = (\<lambda>contact_id email. Inr []),
     deal_touchpoints = (\<lambda>journey. Inr [])\<rparr>"

section \<open>Properties of the dedup loop\<close>

text \<open>
  The loop keeps the first element of every key. \<open>firsts k S xs\<close> is that selection as a
  pure function, for any key function \<open>k\<close> and any set \<open>S\<close> of keys already seen.
\<close>

fun firsts :: "('a \<Rightarrow> 'k) \<Rightarrow> 'k set \<Rightarrow> 'a list \<Rightarrow> 'a list" where
  "firsts k S [] = []"
| "firsts k S (x # xs) =
     (if k x \<in> S then firsts k S xs else x # firsts k (insert (k x) S) xs)"

lemma firsts_snoc:
  "firsts k S (xs @ [x]) = firsts k S xs @ (if k x \<in> S \<union> k ` set xs then [] else [x])"
  by (induction xs arbitrary: S) auto

lemma firsts_index:
  "firsts k {} xs =
     map ((!) xs) (filter (\<lambda>i. \<forall>j<i. k (xs ! j) \<noteq> k (xs ! i)) [0..<length xs])"
proof (induction xs rule: rev_induct)
  case Nil
  show ?case by simp
next
  case (snoc x xs)
  let ?n = "length xs"
  let ?P = "\<lambda>ys i. \<forall>j<i. k (ys ! j) \<noteq> k (ys ! i)"
  have old: "filter (?P (xs @ [x])) [0..<?n] = filter (?P xs) [0..<?n]"
    by (rule filter_cong) (auto simp: nth_append)
  have oldmap: "map ((!) (xs @ [x])) (filter (?P xs) [0..<?n])
      = map ((!) xs) (filter (?P xs) [0..<?n])"
    by (rule map_cong) (auto simp: nth_append)
  have new: "?P (xs @ [x]) ?n \<longleftrightarrow> k x \<notin> k ` set xs"
    by (auto simp: nth_append in_set_conv_nth image_iff) (metis nth_mem)
  show ?case
    using snoc.IH old oldmap new by (simp add: firsts_snoc)
qed

lemma firsts_keys:
  "distinct (map k (firsts k S xs)) \<and> k ` set (firsts k S xs) \<inter> S = {}"
  by (induction xs arbitrary: S) auto

lemma firsts_id:
  "distinct (map k ys) \<Longrightarrow> k ` set ys \<inter> S = {} \<Longrightarrow> firsts k S ys = ys"
  by (induction ys arbitrary: S) auto

lemma firsts_idem: "firsts k {} (firsts k {} xs) = firsts k {} xs"
  using firsts_keys [of k "{}" xs] by (simp add: firsts_id)

lemma firsts_set: "set (firsts k S xs) \<subseteq> set xs"
  by (induction xs arbitrary: S) auto

lemma firsts_subseq: "subseq (filter P (firsts k S xs)) (filter P xs)"
  by (induction xs arbitrary: S) auto

lemma firsts_sorted: "sorted (map f xs) \<Longrightarrow> sorted (map f (firsts k S xs))"
proof (induction xs arbitrary: S)
  case Nil
  show ?case by simp
next
  case (Cons x xs)
  have "set (firsts k (insert (k x) S) xs) \<subseteq> set xs" by (rule firsts_set)
  with Cons show ?case by auto
qed

lemma dedup_loop_Inr:
  "\<forall>t\<in>set tps. tp_date t \<noteq> None \<Longrightarrow>
   dedup_loop tps deduped seen = Inr (deduped @ firsts dedup_key (Inr ` seen) tps)"
proof (induction tps arbitrary: deduped seen)
  case Nil
  show ?case by simp
next
  case (Cons tp tps)
  from Cons.prems obtain d where d: "tp_date tp = Some d" by auto
  have k: "dedup_key tp = Inr (take 16 d, tp_type tp, take 50 (tp_detail tp))"
    by (simp add: dedup_key_def d)
  from Cons.prems have rest: "\<forall>t\<in>set tps. tp_date t \<noteq> None" by simp
  show ?case
    by (simp add: k Cons.IH [OF rest] image_iff)
qed

lemma dedup_loop_Inl:
  "\<exists>t\<in>set tps. tp_date t = None \<Longrightarrow> dedup_loop tps deduped seen = Inl TypeError"
proof (induction tps arbitrary: deduped seen)
  case Nil
  then show ?case by simp
next
  case (Cons tp tps)
  show ?case
  proof (cases "tp_date tp")
    case None
    then show ?thesis by (simp add: dedup_key_def)
  next
    case (Some d)
    with Cons.prems have "\<exists>t\<in>set tps. tp_date t = None" by auto
    then show ?thesis by (simp add: dedup_key_def Some Cons.IH)
  qed
qed

lemma dedup_Inr_iff:
  "dedup tps = Inr out \<longleftrightarrow>
     (\<forall>t\<in>set tps. tp_date t \<noteq> None) \<and> out = firsts dedup_key {} tps"
proof (cases "\<forall>t\<in>set tps. tp_date t \<noteq> None")
  case True
  then show ?thesis using dedup_loop_Inr [of tps "[]" "{}"] by (auto simp: dedup_def)
next
  case False
  then have "\<exists>t\<in>set tps. tp_date t = None" by simp
  then have "dedup tps = Inl TypeError" by (simp add: dedup_def dedup_loop_Inl)
  with False show ?thesis by simp
qed

lemma undated_key: "\<not> dated t \<Longrightarrow> sort_date_key t = ''9999''"
  by (auto simp: dated_def sort_date_key_def split: option.splits)

text \<open>
  C1 (as amended). When the sort/dedup step returns \<open>out\<close>: \<open>out\<close> is in ascending order of
  the sort key, which is the date text compared by code point, with \<^verbatim>\<open>"9999"\<close> standing
  in for a missing date; the sort is stable (touchpoints of equal key are exactly those of the
  input, in their input order, and the ones that survive the dedup keep that order); and every
  touchpoint without a date comes after every touchpoint whose date text sorts below
  \<^verbatim>\<open>"9999"\<close>.
\<close>

theorem sort_and_dedup_order:
  assumes "sort_and_dedup tps = Inr out"
  shows "sorted (map sort_date_key out)
    \<and> (\<forall>k. filter (\<lambda>t. sort_date_key t = k) (sort_touchpoints tps)
            = filter (\<lambda>t. sort_date_key t = k) tps)
    \<and> (\<forall>k. subseq (filter (\<lambda>t. sort_date_key t = k) out)
                   (filter (\<lambda>t. sort_date_key t = k) tps))
    \<and> (\<forall>i<length out. \<forall>j<length out.
          \<not> dated (out ! i) \<and> sort_date_key (out ! j) < ''9999'' \<longrightarrow> j < i)"
proof -
  from assms have o: "out = firsts dedup_key {} (sort_touchpoints tps)"
    by (simp add: sort_and_dedup_def dedup_Inr_iff)
  have srt: "sorted (map sort_date_key out)"
    unfolding o sort_touchpoints_def by (rule firsts_sorted) (rule sorted_sort_key)
  have stab: "filter (\<lambda>t. sort_date_key t = k) (sort_touchpoints tps)
      = filter (\<lambda>t. sort_date_key t = k) tps" for k
    unfolding sort_touchpoints_def by (rule sort_key_stable)
  have sub: "subseq (filter (\<lambda>t. sort_date_key t = k) out)
      (filter (\<lambda>t. sort_date_key t = k) tps)" for k
    using firsts_subseq [of "\<lambda>t. sort_date_key t = k" dedup_key "{}" "sort_touchpoints tps"]
    by (simp add: o stab)
  have last: "j < i" if "i < length out" "j < length out" "\<not> dated (out ! i)"
      "sort_date_key (out ! j) < ''9999''" for i j
  proof (rule ccontr)
    assume "\<not> j < i"
    then have "i \<le> j" by simp
    with srt that(2) have "map sort_date_key out ! i \<le> map sort_date_key out ! j"
      by (simp add: sorted_iff_nth_mono del: nth_map)
    with that have "sort_date_key (out ! i) \<le> sort_date_key (out ! j)" by simp
    with that(3,4) show False by (simp add: undated_key)
  qed
  from srt stab sub last show ?thesis by blast
qed

theorem sort_and_dedup_order_witness:
  "sort_and_dedup [email_at_30, undated_signup, email_at_0] = Inr [email_at_0, undated_signup]
   \<and> sorted (map sort_date_key [email_at_0, undated_signup])
   \<and> \<not> dated undated_signup \<and> sort_date_key email_at_0 < ''9999'' \<and> (0::nat) < 1"
proof -
  have h: "sort_and_dedup [email_at_30, undated_signup, email_at_0]
      = Inr [email_at_0, undated_signup]"
    by (simp add: sort_and_dedup_def sort_touchpoints_def dedup_def dedup_key_def
        email_at_0_def email_at_30_def undated_signup_def sort_date_key_def)
  have u: "\<not> dated undated_signup" by (simp add: dated_def undated_signup_def)
  have k: "sort_date_key email_at_0 < ''9999''"
    by (simp add: sort_date_key_def email_at_0_def)
  from sort_and_dedup_order [OF h] u k h show ?thesis by simp
qed

text \<open>
  C1 as stated fails: a touchpoint dated in the year 9999 has a key above \<^verbatim>\<open>"9999"\<close>,
  so the touchpoint without a date is placed before it.
\<close>

theorem undated_before_dated_counterexample:
  "sort_and_dedup [year_9999_close, undated_signup] = Inr [undated_signup, year_9999_close]
   \<and> \<not> dated undated_signup \<and> dated year_9999_close"
  by (simp add: sort_and_dedup_def sort_touchpoints_def dedup_def dedup_key_def
      year_9999_close_def undated_signup_def sort_date_key_def dated_def)

text \<open>
  C2. The dedup pass is idempotent: applied to its own output it returns that output.
\<close>

theorem dedup_idempotent: "dedup tps = Inr out \<Longrightarrow> dedup out = Inr out"
proof -
  assume a: "dedup tps = Inr out"
  then have d: "\<forall>t\<in>set tps. tp_date t \<noteq> None" and o: "out = firsts dedup_key {} tps"
    by (simp_all add: dedup_Inr_iff)
  have "set out \<subseteq> set tps" unfolding o by (rule firsts_set)
  with d have "\<forall>t\<in>set out. tp_date t \<noteq> None" by auto
  moreover have "firsts dedup_key {} out = out" by (simp add: o firsts_idem)
  ultimately show ?thesis by (simp add: dedup_Inr_iff)
qed

theorem dedup_idempotent_witness:
  "dedup [email_at_0, email_at_30] = Inr [email_at_0] \<and> dedup [email_at_0] = Inr [email_at_0]"
proof -
  have h: "dedup [email_at_0, email_at_30] = Inr [email_at_0]"
    by (simp add: dedup_def dedup_key_def email_at_0_def email_at_30_def)
  from dedup_idempotent [OF h] h show ?thesis by simp
qed

text \<open>
  C3. On a sequence whose dates are all strings (otherwise the pass raises), the dedup pass
  returns exactly the touchpoints that are the first occurrence of their key
  (first 16 characters of the date, which for an ISO timestamp is the timestamp cut to the
  minute; type; first 50 characters of the detail), in their order. In particular two
  touchpoints with the same key collapse to the first, as the two emails of
  10:00:00 and 10:00:30 do.
\<close>

theorem dedup_keeps_first_occurrence:
  assumes "\<forall>t\<in>set tps. tp_date t \<noteq> None"
  shows "dedup tps =
      Inr (map ((!) tps)
        (filter (\<lambda>i. \<forall>j<i. dedup_key (tps ! j) \<noteq> dedup_key (tps ! i)) [0..<length tps]))
    \<and> (tp_date a \<noteq> None \<and> dedup_key a = dedup_key b \<longrightarrow> dedup [a, b] = Inr [a])
    \<and> dedup [email_at_0, email_at_30] = Inr [email_at_0]"
proof -
  from assms have "dedup tps = Inr (firsts dedup_key {} tps)"
    by (simp add: dedup_Inr_iff)
  then have first: "dedup tps =
      Inr (map ((!) tps)
        (filter (\<lambda>i. \<forall>j<i. dedup_key (tps ! j) \<noteq> dedup_key (tps ! i)) [0..<length tps]))"
    by (simp only: firsts_index)
  have two: "dedup [a, b] = Inr [a]" if "tp_date a \<noteq> None" "dedup_key a = dedup_key b"
  proof -
    from that have "tp_date b \<noteq> None"
      by (auto simp: dedup_key_def split: option.splits)
    with that have "dedup [a, b] = Inr (firsts dedup_key {} [a, b])"
      by (simp add: dedup_Inr_iff)
    with that(2) show ?thesis by simp
  qed
  have ex: "dedup [email_at_0, email_at_30] = Inr [email_at_0]"
    by (simp add: dedup_def dedup_key_def email_at_0_def email_at_30_def)
  from first two ex show ?thesis by blast
qed

theorem dedup_keeps_first_occurrence_witness:
  "tp_date email_at_0 \<noteq> None \<and> tp_date undated_signup \<noteq> None
   \<and> tp_date email_at_30 \<noteq> None
   \<and> dedup [email_at_0, undated_signup, email_at_30] = Inr [email_at_0, undated_signup]
   \<and> [email_at_0, undated_signup] =
       map ((!) [email_at_0, undated_signup, email_at_30])
         (filter (\<lambda>i. \<forall>j<i. dedup_key ([email_at_0, undated_signup, email_at_30] ! j)
            \<noteq> dedup_key ([email_at_0, undated_signup, email_at_30] ! i))
          [0..<length [email_at_0, undated_signup, email_at_30]])"
proof -
  have h: "\<forall>t\<in>set [email_at_0, undated_signup, email_at_30]. tp_date t \<noteq> None"
    by (simp add: email_at_0_def email_at_30_def undated_signup_def)
  have e: "dedup [email_at_0, undated_signup, email_at_30] = Inr [email_at_0, undated_signup]"
    by (simp add: dedup_def dedup_key_def email_at_0_def email_at_30_def undated_signup_def)
  from dedup_keeps_first_occurrence [OF h]
  have "dedup [email_at_0, undated_signup, email_at_30] =
      Inr (map ((!) [email_at_0, undated_signup, email_at_30])
         (filter (\<lambda>i. \<forall>j<i. dedup_key ([email_at_0, undated_signup, email_at_30] ! j)
            \<noteq> dedup_key ([email_at_0, undated_signup, email_at_30] ! i))
          [0..<length [email_at_0, undated_signup, email_at_30]]))"
    by (rule conjunct1)
  then have "[email_at_0, undated_signup] =
       map ((!) [email_at_0, undated_signup, email_at_30])
         (filter (\<lambda>i. \<forall>j<i. dedup_key ([email_at_0, undated_signup, email_at_30] ! j)
            \<noteq> dedup_key ([email_at_0, undated_signup, email_at_30] ! i))
          [0..<length [email_at_0, undated_signup, email_at_30]])"
    unfolding e by (simp only: sum.inject)
  with h e show ?thesis by simp
qed

section \<open>Cohorts\<close>

text \<open>
  C5. The membership conditions of the four cohorts are mutually exclusive: a customer that
  satisfies two of them satisfies the same one twice. A customer that is in none of
  Closed-Won, Churned and Stalled-Active appears in no cohort list other than No-Deal.
\<close>

theorem cohorts_mutually_exclusive:
  "(in_cohort a c \<and> in_cohort b c \<longrightarrow> a = b)
   \<and> (\<not> in_cohort Closed_Won c \<and> \<not> in_cohort Churned c \<and> \<not> in_cohort Stalled c
        \<and> c \<in> set (cohort_members co all_touchpoint_data) \<longrightarrow> co = No_Deal)"
proof -
  have excl: "a = b" if "in_cohort a c" "in_cohort b c"
    using that by (cases a; cases b) auto
  have rest: "co = No_Deal" if "\<not> in_cohort Closed_Won c" "\<not> in_cohort Churned c"
      "\<not> in_cohort Stalled c" "c \<in> set (cohort_members co all_touchpoint_data)"
  proof -
    from that(4) have "in_cohort co c" by (simp add: cohort_members_def)
    with that(1-3) show ?thesis by (cases co) auto
  qed
  from excl rest show ?thesis by blast
qed

theorem cohorts_mutually_exclusive_witness:
  "in_cohort Closed_Won acme \<and> \<not> in_cohort Churned acme \<and> \<not> in_cohort Stalled acme
   \<and> \<not> in_cohort No_Deal acme
   \<and> \<not> in_cohort Closed_Won (acme\<lparr>c_deal_stage := None\<rparr>)
   \<and> \<not> in_cohort Churned (acme\<lparr>c_deal_stage := None\<rparr>)
   \<and> \<not> in_cohort Stalled (acme\<lparr>c_deal_stage := None\<rparr>)
   \<and> acme\<lparr>c_deal_stage := None\<rparr>
        \<in> set (cohort_members No_Deal [acme, acme\<lparr>c_deal_stage := None\<rparr>])
   \<and> acme\<lparr>c_deal_stage := None\<rparr>
        \<notin> set (cohort_members Stalled [acme, acme\<lparr>c_deal_stage := None\<rparr>])"
proof -
  have won: "in_cohort Closed_Won acme" by (simp add: acme_def)
  have m: "acme\<lparr>c_deal_stage := None\<rparr>
      \<in> set (cohort_members No_Deal [acme, acme\<lparr>c_deal_stage := None\<rparr>])"
    by (simp add: cohort_members_def)
  have n: "\<not> in_cohort Closed_Won (acme\<lparr>c_deal_stage := None\<rparr>)"
      "\<not> in_cohort Churned (acme\<lparr>c_deal_stage := None\<rparr>)"
      "\<not> in_cohort Stalled (acme\<lparr>c_deal_stage := None\<rparr>)"
    by simp_all
  from cohorts_mutually_exclusive [of Churned acme Closed_Won] won
  have a: "\<not> in_cohort Churned acme" by blast
  from cohorts_mutually_exclusive [of Stalled acme Closed_Won] won
  have b: "\<not> in_cohort Stalled acme" by blast
  from cohorts_mutually_exclusive [of No_Deal acme Closed_Won] won
  have c: "\<not> in_cohort No_Deal acme" by blast
  from cohorts_mutually_exclusive
    [of _ "acme\<lparr>c_deal_stage := None\<rparr>" _ Stalled "[acme, acme\<lparr>c_deal_stage := None\<rparr>]"] n
  have d: "acme\<lparr>c_deal_stage := None\<rparr>
      \<notin> set (cohort_members Stalled [acme, acme\<lparr>c_deal_stage := None\<rparr>])"
    by blast
  from won a b c n m d show ?thesis by blast
qed

section \<open>Rate-limited calls\<close>

lemma hubspot_get_steps:
  "\<forall>k<m. api (n + k) = HTTPError 429 \<Longrightarrow>
   hubspot_get api (m + depth) n slept = hubspot_get api depth (n + m) (slept + 10 * m)"
proof (induction m arbitrary: n slept)
  case 0
  show ?case by simp
next
  case (Suc m)
  from Suc.prems have first: "api n = HTTPError 429" by (metis add.right_neutral zero_less_Suc)
  from Suc.prems have "\<forall>k<m. api (Suc n + k) = HTTPError 429" by auto
  from Suc.IH [OF this, of "slept + 10"] first show ?case
    by (simp add: algebra_simps)
qed

lemma hubspot_post_steps:
  "\<forall>k<m. api (n + k) = HTTPError 429 \<Longrightarrow>
   hubspot_post api (m + depth) n slept = hubspot_post api depth (n + m) (slept + 10 * m)"
proof (induction m arbitrary: n slept)
  case 0
  show ?case by simp
next
  case (Suc m)
  from Suc.prems have first: "api n = HTTPError 429" by (metis add.right_neutral zero_less_Suc)
  from Suc.prems have "\<forall>k<m. api (Suc n + k) = HTTPError 429" by auto
  from Suc.IH [OF this, of "slept + 10"] first show ?case
    by (simp add: algebra_simps)
qed

lemma hubspot_get_stop:
  "api n \<noteq> HTTPError 429 \<Longrightarrow>
   hubspot_get api (Suc depth) n slept = (result_of (api n), Suc n, slept)"
  by (simp add: result_of_def split: response.splits)

lemma hubspot_post_stop:
  "api n \<noteq> HTTPError 429 \<Longrightarrow>
   hubspot_post api (Suc depth) n slept = (result_of (api n), Suc n, slept)"
  by (simp add: result_of_def split: response.splits)

text \<open>
  C7 (as amended). A call answered with 429 is made again after a sleep of 10 seconds,
  each time the answer is 429 and not once only, for as long as the depth of nesting that
  the interpreter allows is not used up. When the first \<open>m\<close> attempts are answered with
  429, attempt \<open>m\<close> is not, and \<open>m\<close> is below that depth, the call makes \<open>m + 1\<close>
  attempts, sleeps \<open>10 * m\<close> seconds and returns the outcome of attempt \<open>m\<close>: its data,
  or no data after any other failure, which is not retried. When every attempt within the
  depth is answered with 429, the call returns no data after \<open>depth\<close> attempts. The call
  returns in every case.
\<close>

theorem rate_limit_retried_up_to_depth:
  "((\<forall>k<m. api k = HTTPError 429) \<and> api m \<noteq> HTTPError 429 \<and> m < depth \<longrightarrow>
      hubspot_get api depth 0 0 = (result_of (api m), Suc m, 10 * m)
      \<and> hubspot_post api depth 0 0 = (result_of (api m), Suc m, 10 * m))
   \<and> ((\<forall>k<depth. api k = HTTPError 429) \<longrightarrow>
        hubspot_get api depth 0 0 = (None, depth, 10 * depth)
        \<and> hubspot_post api depth 0 0 = (None, depth, 10 * depth))"
proof -
  have a: "hubspot_get api depth 0 0 = (result_of (api m), Suc m, 10 * m)
      \<and> hubspot_post api depth 0 0 = (result_of (api m), Suc m, 10 * m)"
    if "\<forall>k<m. api k = HTTPError 429" "api m \<noteq> HTTPError 429" "m < depth"
  proof -
    from less_imp_Suc_add [OF that(3)] obtain d where "depth = Suc (m + d)" ..
    then have d: "depth = m + Suc d" by simp
    from that(1) have lim: "\<forall>k<m. api (0 + k) = HTTPError 429" by simp
    have "hubspot_get api (m + Suc d) 0 0 = hubspot_get api (Suc d) (0 + m) (0 + 10 * m)"
      by (rule hubspot_get_steps [OF lim])
    also have "\<dots> = hubspot_get api (Suc d) m (10 * m)"
      by (simp only: add_0)
    also have "\<dots> = (result_of (api m), Suc m, 10 * m)"
      by (rule hubspot_get_stop [of api m, OF that(2)])
    finally have g: "hubspot_get api depth 0 0 = (result_of (api m), Suc m, 10 * m)"
      by (simp only: d)
    have "hubspot_post api (m + Suc d) 0 0 = hubspot_post api (Suc d) (0 + m) (0 + 10 * m)"
      by (rule hubspot_post_steps [OF lim])
    also have "\<dots> = hubspot_post api (Suc d) m (10 * m)"
      by (simp only: add_0)
    also have "\<dots> = (result_of (api m), Suc m, 10 * m)"
      by (rule hubspot_post_stop [of api m, OF that(2)])
    finally have p: "hubspot_post api depth 0 0 = (result_of (api m), Suc m, 10 * m)"
      by (simp only: d)
    from g p show ?thesis by (rule conjI)
  qed
  have b: "hubspot_get api depth 0 0 = (None, depth, 10 * depth)
      \<and> hubspot_post api depth 0 0 = (None, depth, 10 * depth)"
    if "\<forall>k<depth. api k = HTTPError 429"
  proof -
    from that have lim: "\<forall>k<depth. api (0 + k) = HTTPError 429" by simp
    have "hubspot_get api (depth + 0) 0 0 = hubspot_get api 0 (0 + depth) (0 + 10 * depth)"
      by (rule hubspot_get_steps [OF lim])
    then have g: "hubspot_get api depth 0 0 = (None, depth, 10 * depth)"
      by (simp only: add_0 add_0_right hubspot_get.simps(1))
    have "hubspot_post api (depth + 0) 0 0 = hubspot_post api 0 (0 + depth) (0 + 10 * depth)"
      by (rule hubspot_post_steps [OF lim])
    then have p: "hubspot_post api depth 0 0 = (None, depth, 10 * depth)"
      by (simp only: add_0 add_0_right hubspot_post.simps(1))
    from g p show ?thesis by (rule conjI)
  qed
  from a b show ?thesis by blast
qed

theorem rate_limit_retried_up_to_depth_witness:
  "limited_then 1 ''data'' 0 = HTTPError 429
   \<and> limited_then 1 ''data'' 1 \<noteq> HTTPError 429
   \<and> (1::nat) < 900
   \<and> hubspot_get (limited_then 1 ''data'') 900 0 0 = (Some ''data'', 2, 10)
   \<and> hubspot_post (limited_then 1 ''data'') 900 0 0 = (Some ''data'', 2, 10)
   \<and> always_limited 7 = HTTPError 429
   \<and> hubspot_get always_limited 900 0 0 = (None, 900, 9000)
   \<and> hubspot_post always_limited 900 0 0 = (None, 900, 9000)"
proof -
  have h1: "\<forall>k<Suc 0. limited_then (Suc 0) ''data'' k = HTTPError 429"
    by (simp add: limited_then_def)
  have h2: "limited_then (Suc 0) ''data'' (Suc 0) \<noteq> HTTPError 429"
    by (simp add: limited_then_def)
  have h3: "\<forall>k<900. always_limited k = HTTPError 429"
    by (simp add: always_limited_def)
  have r: "result_of (limited_then (Suc 0) ''data'' (Suc 0)) = Some ''data''"
    by (simp add: limited_then_def result_of_def)
  have lt: "Suc 0 < (900::nat)" by simp
  from rate_limit_retried_up_to_depth [of "Suc 0" "limited_then (Suc 0) ''data''" 900] h1 h2 lt
  have "hubspot_get (limited_then (Suc 0) ''data'') 900 0 0
        = (result_of (limited_then (Suc 0) ''data'' (Suc 0)), Suc (Suc 0), 10 * Suc 0)
      \<and> hubspot_post (limited_then (Suc 0) ''data'') 900 0 0
        = (result_of (limited_then (Suc 0) ''data'' (Suc 0)), Suc (Suc 0), 10 * Suc 0)"
    by blast
  then have g: "hubspot_get (limited_then 1 ''data'') 900 0 0 = (Some ''data'', 2, 10)
      \<and> hubspot_post (limited_then 1 ''data'') 900 0 0 = (Some ''data'', 2, 10)"
    by (simp add: r)
  from rate_limit_retried_up_to_depth [of 0 always_limited 900] h3
  have "hubspot_get always_limited 900 0 0 = (None, 900, 10 * 900)
      \<and> hubspot_post always_limited 900 0 0 = (None, 900, 10 * 900)"
    by blast
  then have n: "hubspot_get always_limited 900 0 0 = (None, 900, 9000)
      \<and> hubspot_post always_limited 900 0 0 = (None, 900, 9000)"
    by simp
  have i: "limited_then 1 ''data'' 0 = HTTPError 429" "limited_then 1 ''data'' 1 \<noteq> HTTPError 429"
      "always_limited 7 = HTTPError 429"
    by (simp_all add: limited_then_def always_limited_def)
  from i g n show ?thesis by simp
qed

text \<open>
  C7 as stated fails: when the API answers 429 twice and then delivers the data, the call
  is made three times (two retries, 20 seconds of sleep) and returns the data, where the
  claim has one retry and no data. The depth 900 is below what the default recursion
  limit leaves; any depth of at least 3 gives the same.
\<close>

theorem retried_more_than_once_counterexample:
  "hubspot_get (limited_then 2 ''data'') 900 0 0 = (Some ''data'', 3, 20)
   \<and> hubspot_post (limited_then 2 ''data'') 900 0 0 = (Some ''data'', 3, 20)"
  by code_simp


section \<open>Gaps\<close>

lemma gap_loop_eq:
  "gap_loop fromiso c tps prev acc =
     acc @ consecutive_gaps fromiso c
       ((case prev of None \<Rightarrow> [] | Some p \<Rightarrow> [p]) @ map date_and_type (filter gap_eligible tps))"
proof (induction tps arbitrary: prev acc)
  case Nil
  show ?case by (simp add: consecutive_gaps_def split: option.splits)
next
  case (Cons tp tps)
  show ?case
  proof (cases "gap_eligible tp")
    case False
    then show ?thesis
      by (auto simp: Cons.IH gap_eligible_def dated_def split: option.splits)
  next
    case True
    then obtain d where d: "tp_date tp = Some d" "d \<noteq> []"
        "tp_type tp \<noteq> ''Last Sales Activity''"
      by (auto simp: gap_eligible_def dated_def split: option.splits)
    have dt: "date_and_type tp = (d, tp_type tp)" by (simp add: date_and_type_def d)
    show ?thesis
    proof (cases prev)
      case None
      with True d dt show ?thesis by (simp add: Cons.IH consecutive_gaps_def)
    next
      case (Some p)
      obtain pd pt where p: "p = (pd, pt)" by (cases p)
      with True d dt Some show ?thesis
        by (simp add: Cons.IH consecutive_gaps_def gap_between_def split: option.splits)
    qed
  qed
qed

lemma gap_between_positive: "g \<in> set (gap_between fromiso c p q) \<Longrightarrow> gap_days g > 0"
  by (auto simp: gap_between_def split: option.splits if_splits)

lemma consecutive_gaps_positive:
  "g \<in> set (consecutive_gaps fromiso c es) \<Longrightarrow> gap_days g > 0"
  by (auto simp: consecutive_gaps_def dest: gap_between_positive)

lemma customer_gaps_eq:
  "customer_gaps fromiso c acc =
     acc @ consecutive_gaps fromiso c
       (map date_and_type (filter gap_eligible (c_touchpoints c)))"
  by (simp add: customer_gaps_def gap_loop_eq)

lemma all_gaps_fold:
  "fold (customer_gaps fromiso) cs acc =
     acc @ concat (map (\<lambda>c. consecutive_gaps fromiso c
        (map date_and_type (filter gap_eligible (c_touchpoints c)))) cs)"
  by (induction cs arbitrary: acc) (simp_all add: customer_gaps_eq)

text \<open>
  C6. The gaps of a customer are exactly the gap records of the pairs of consecutive
  touchpoints, among those that are dated and not of type Last Sales Activity, whose
  difference in days is defined and greater than zero. The global list is the
  concatenation over the customers, every recorded gap has \<open>gap_days > 0\<close>, and a customer
  with at most one touchpoint contributes no gap.
\<close>

theorem gaps_strictly_positive:
  "customer_gaps fromiso c [] =
     consecutive_gaps fromiso c (map date_and_type (filter gap_eligible (c_touchpoints c)))
   \<and> all_gaps fromiso all_touchpoint_data =
       concat (map (\<lambda>c. customer_gaps fromiso c []) all_touchpoint_data)
   \<and> (\<forall>g\<in>set (all_gaps fromiso all_touchpoint_data). gap_days g > 0)
   \<and> (length (c_touchpoints c) \<le> 1 \<longrightarrow> customer_gaps fromiso c [] = [])"
proof -
  have one: "customer_gaps fromiso c [] =
     consecutive_gaps fromiso c (map date_and_type (filter gap_eligible (c_touchpoints c)))"
    for c
    by (simp add: customer_gaps_eq)
  have all: "all_gaps fromiso all_touchpoint_data =
       concat (map (\<lambda>c. customer_gaps fromiso c []) all_touchpoint_data)"
    by (simp add: all_gaps_def all_gaps_fold one)
  have pos: "\<forall>g\<in>set (all_gaps fromiso all_touchpoint_data). gap_days g > 0"
    unfolding all by (auto simp: one dest: consecutive_gaps_positive)
  have single: "customer_gaps fromiso c [] = []" if "length (c_touchpoints c) \<le> 1"
  proof -
    have "length (filter gap_eligible (c_touchpoints c)) \<le> 1"
      using that by (meson le_trans length_filter_le)
    then have z: "zip (map date_and_type (filter gap_eligible (c_touchpoints c)))
        (tl (map date_and_type (filter gap_eligible (c_touchpoints c)))) = []"
      by (cases "filter gap_eligible (c_touchpoints c)") auto
    show ?thesis unfolding one consecutive_gaps_def z by simp
  qed
  from one all pos single show ?thesis by blast
qed

theorem gaps_strictly_positive_witness:
  "all_gaps two_dates [acme, single_touch] =
     [\<lparr>g_company = ''Acme'', gap_days = 7, from_type = ''First Touch'',
       to_type = ''Platform Signup'', outcome = Some ''Closed Won''\<rparr>]
   \<and> length (c_touchpoints single_touch) \<le> 1
   \<and> customer_gaps two_dates single_touch [] = []"
proof -
  have l: "length (c_touchpoints single_touch) \<le> 1" by (simp add: single_touch_def)
  note t = gaps_strictly_positive [of two_dates single_touch "[acme, single_touch]"]
  from t l have s: "customer_gaps two_dates single_touch [] = []" by blast
  have a: "customer_gaps two_dates acme [] =
     [\<lparr>g_company = ''Acme'', gap_days = 7, from_type = ''First Touch'',
       to_type = ''Platform Signup'', outcome = Some ''Closed Won''\<rparr>]"
    by (simp add: customer_gaps_def acme_def two_dates_def days_between_def replace_Z_def)
  from t have "all_gaps two_dates [acme, single_touch] =
      concat (map (\<lambda>c. customer_gaps two_dates c []) [acme, single_touch])"
    by blast
  with a s l show ?thesis by simp
qed

section \<open>Stage transitions\<close>

lemma str_split_not_Nil: "str_split sep s \<noteq> []"
  by (subst str_split.simps) (auto split: list.splits)

lemma str_contains_prefix: "prefix sep s \<Longrightarrow> str_contains sep s"
  by (cases s) auto

lemma str_contains_append: "str_contains sep (a @ sep @ b)"
proof (induction a)
  case Nil
  have "prefix sep (sep @ b)" by simp
  then show ?case by (simp add: str_contains_prefix)
next
  case (Cons c a)
  then show ?case by simp
qed

lemma str_contains_single: "str_contains [x] s \<longleftrightarrow> x \<in> set s"
  by (induction s) auto

text \<open>
  An occurrence of \<open>sep\<close> that starts inside \<open>u\<close> and does not fit into \<open>u\<close> runs into
  what follows \<open>u\<close>.
\<close>

lemma prefix_straddle:
  assumes "prefix sep (u @ v)" "\<not> prefix sep u"
  obtains w where "w \<noteq> []" "sep = u @ w" "prefix w v"
  using assms by (auto simp: prefix_append)

lemma no_occurrence_before_char:
  assumes "\<not> str_contains sep (c # a)" "x \<notin> set sep"
  shows "\<not> prefix sep (c # a @ x # r)"
proof
  assume p: "prefix sep (c # a @ x # r)"
  from assms(1) have np: "\<not> prefix sep (c # a)" by (auto dest: str_contains_prefix)
  from p have "prefix sep ((c # a) @ x # r)" by simp
  from prefix_straddle [OF this np] obtain w
    where w: "w \<noteq> []" "sep = (c # a) @ w" "prefix w (x # r)"
    by blast
  then have "hd w = x" by (cases w) auto
  with w have "x \<in> set sep" by (cases w) auto
  with assms(2) show False by simp
qed

lemma no_occurrence_before_sep:
  assumes "\<not> str_contains sep (c # a)" "last sep \<notin> set (butlast sep)" "sep \<noteq> []"
  shows "\<not> prefix sep (c # a @ sep @ r)"
proof
  assume p: "prefix sep (c # a @ sep @ r)"
  from assms(1) have np: "\<not> prefix sep (c # a)" by (auto dest: str_contains_prefix)
  from p have "prefix sep ((c # a) @ sep @ r)" by simp
  from prefix_straddle [OF this np] obtain w where w: "w \<noteq> []" "sep = (c # a) @ w"
      "prefix w (sep @ r)"
    by blast
  from arg_cong [OF w(2), of length] have len: "length w < length sep" by simp
  from w(2) w(1) have lw: "last w = last sep" by simp
  have "prefix sep (sep @ r)" by simp
  from prefix_length_prefix [OF w(3) this] len have ws: "prefix w sep" by simp
  from assms(3) have bl: "butlast sep @ [last sep] = sep" by simp
  from ws have "prefix w (butlast sep @ [last sep])" by (simp only: bl)
  then have "w = butlast sep @ [last sep] \<or> prefix w (butlast sep)"
    by (simp only: prefix_snoc)
  with len bl have "prefix w (butlast sep)" by auto
  then have "set w \<subseteq> set (butlast sep)" by (rule set_mono_prefix)
  moreover from w(1) have "last w \<in> set w" by simp
  ultimately have "last sep \<in> set (butlast sep)" using lw by auto
  with assms(2) show False by simp
qed

lemma str_split_prefix:
  "sep \<noteq> [] \<Longrightarrow> str_split sep (sep @ r) = [] # str_split sep r"
  by (subst str_split.simps) simp

lemma str_split_Cons:
  "\<not> prefix sep (c # cs) \<Longrightarrow>
   str_split sep (c # cs) = (c # hd (str_split sep cs)) # tl (str_split sep cs)"
  using str_split_not_Nil [of sep cs]
  by (subst str_split.simps) (auto split: list.splits)

text \<open>Splitting at the first occurrence of the separator.\<close>

lemma str_split_first:
  assumes "sep \<noteq> []" "\<not> str_contains sep pre" "last sep \<notin> set (butlast sep)"
  shows "str_split sep (pre @ sep @ r) = pre # str_split sep r"
  using assms(2)
proof (induction pre)
  case Nil
  with assms(1) show ?case by (simp add: str_split_prefix)
next
  case (Cons c a)
  from Cons.prems have a: "\<not> str_contains sep a" by simp
  from no_occurrence_before_sep [OF Cons.prems assms(3) assms(1)]
  have "\<not> prefix sep (c # a @ sep @ r)" .
  then show ?case using Cons.IH [OF a] by (simp add: str_split_Cons)
qed

lemma str_split_none:
  assumes "\<not> str_contains sep s"
  shows "str_split sep s = [s]"
  using assms
proof (induction s)
  case Nil
  then show ?case by (subst str_split.simps) auto
next
  case (Cons c s)
  then have "\<not> prefix sep (c # s)" "\<not> str_contains sep s" by auto
  with Cons.IH show ?case by (simp add: str_split_Cons)
qed

lemma hd_str_split_before_char:
  assumes "\<not> str_contains sep a" "x \<notin> set sep" "sep \<noteq> []"
  shows "\<exists>y. hd (str_split sep (a @ x # r)) = a @ x # y"
  using assms(1)
proof (induction a)
  case Nil
  from assms(2,3) have "\<not> prefix sep (x # r)" by (cases sep) auto
  then show ?case by (simp add: str_split_Cons)
next
  case (Cons c a)
  from Cons.prems have a: "\<not> str_contains sep a" by simp
  from no_occurrence_before_char [OF Cons.prems assms(2)]
  have "\<not> prefix sep (c # a @ x # r)" .
  then show ?case using Cons.IH [OF a] by (auto simp: str_split_Cons)
qed

lemma separator_facts:
  "''moved to:'' \<noteq> []" "last ''moved to:'' \<notin> set (butlast ''moved to:'')"
  "CHR ''('' \<notin> set ''moved to:''" "last ''('' \<notin> set (butlast ''('')" "''('' \<noteq> []"
  by simp_all

lemma extract_stage_between:
  assumes "\<not> str_contains ''moved to:'' pre" and "\<not> str_contains ''moved to:'' mid"
    and "CHR ''('' \<notin> set mid"
    and "rest = [] \<or> prefix ''('' rest \<or> prefix ''moved to:'' rest"
  shows "extract_stage (pre @ ''moved to:'' @ mid @ rest) = str_strip mid"
proof -
  let ?sep = "''moved to:''"
  have s1: "str_split ?sep (pre @ ?sep @ mid @ rest) = pre # str_split ?sep (mid @ rest)"
    by (rule str_split_first [OF separator_facts(1) assms(1) separator_facts(2)])
  then have one:
    "str_split ?sep (pre @ ?sep @ mid @ rest) ! 1 = hd (str_split ?sep (mid @ rest))"
    using str_split_not_Nil [of ?sep "mid @ rest"] by (simp add: hd_conv_nth)
  have par: "\<not> str_contains ''('' mid" using assms(3) by (simp add: str_contains_single)
  have "hd (str_split ''('' (hd (str_split ?sep (mid @ rest)))) = mid"
    using assms(4)
  proof (elim disjE)
    assume "rest = []"
    with assms(2) par show ?thesis by (simp add: str_split_none)
  next
    assume "prefix ''('' rest"
    then obtain r where r: "rest = CHR ''('' # r" by (auto simp: prefix_def)
    from hd_str_split_before_char [OF assms(2) separator_facts(3) separator_facts(1), of r]
    obtain y where "hd (str_split ?sep (mid @ rest)) = mid @ ''('' @ y" by (auto simp: r)
    with par show ?thesis
      using str_split_first [OF separator_facts(5) par separator_facts(4), of y] by simp
  next
    assume "prefix ?sep rest"
    then obtain r where r: "rest = ?sep @ r" by (auto simp: prefix_def)
    have "str_split ?sep (mid @ ?sep @ r) = mid # str_split ?sep r"
      by (rule str_split_first [OF separator_facts(1) assms(2) separator_facts(2)])
    with par show ?thesis by (simp add: r str_split_none)
  qed
  with one show ?thesis by (simp add: extract_stage_def)
qed

lemma stages_seen_eq:
  "stages_seen tps =
     map (\<lambda>tp. (tp_date tp, extract_stage (tp_detail tp)))
       (filter (\<lambda>tp. tp_type tp = ''Deal Stage Change''
                  \<and> str_contains ''moved to:'' (tp_detail tp)) tps)"
  by (induction tps) auto

lemma count_fold:
  "count_of (fold (\<lambda>x m. increment (f x) m) xs m) k
     = count_of m k + length (filter (\<lambda>x. f x = k) xs)"
  by (induction xs arbitrary: m) (auto simp: increment_def count_of_def)

lemma customer_transitions_count:
  "count_of (customer_transitions c m) k = count_of m k + transitions_with_key c k"
  by (simp add: customer_transitions_def track_stage_sequences_def count_fold
      transitions_with_key_def)

lemma fold_transitions_count:
  "count_of (fold customer_transitions cs m) k
     = count_of m k + sum_list (map (\<lambda>c. transitions_with_key c k) cs)"
  by (induction cs arbitrary: m) (simp_all add: customer_transitions_count)

text \<open>
  What the analyzer computes. In a detail \<open>pre @ ''moved to:'' @ mid @ rest\<close> where the
  phrase occurs neither in \<open>pre\<close> nor in \<open>mid\<close>, \<open>mid\<close> has no parenthesis and \<open>rest\<close>
  is empty or starts with a parenthesis or with the phrase, the text extracted is \<open>mid\<close>,
  stripped. In a detail that holds the phrase once, in front of the stage, this is the stage
  that the history loop wrote: the detail of the example yields \<^verbatim>\<open>Demo Scheduled\<close>. The
  stages of a customer are those of its Deal Stage Change touchpoints that contain the
  phrase, in order, and every pair of consecutive stages of a customer adds one to the
  entry of its key in the table, for one customer and over all customers.
\<close>

lemma extracted_stage_and_transition_counts:
  assumes "\<not> str_contains ''moved to:'' pre" and "\<not> str_contains ''moved to:'' mid"
    and "CHR ''('' \<notin> set mid"
    and "rest = [] \<or> prefix ''('' rest \<or> prefix ''moved to:'' rest"
  shows "str_contains ''moved to:'' (pre @ ''moved to:'' @ mid @ rest)
    \<and> extract_stage (pre @ ''moved to:'' @ mid @ rest) = str_strip mid
    \<and> stages_seen tps =
         map (\<lambda>tp. (tp_date tp, extract_stage (tp_detail tp)))
           (filter (\<lambda>tp. tp_type tp = ''Deal Stage Change''
                      \<and> str_contains ''moved to:'' (tp_detail tp)) tps)
    \<and> extract_stage ''\"Acme Deal\" moved to: Demo Scheduled (via CRM_UI)'' = ''Demo Scheduled''
    \<and> count_of (customer_transitions c m) k = count_of m k + transitions_with_key c k
    \<and> count_of (all_transitions all_touchpoint_data) k
         = sum_list (map (\<lambda>c. transitions_with_key c k) all_touchpoint_data)"
proof -
  have c: "str_contains ''moved to:'' (pre @ ''moved to:'' @ mid @ rest)"
    by (rule str_contains_append)
  have e: "extract_stage (pre @ ''moved to:'' @ mid @ rest) = str_strip mid"
    using assms by (rule extract_stage_between)
  have "extract_stage (''\"Acme Deal\" '' @ ''moved to:'' @ '' Demo Scheduled '' @ ''(via CRM_UI)'')
      = str_strip '' Demo Scheduled ''"
    by (rule extract_stage_between) simp_all
  then have x: "extract_stage ''\"Acme Deal\" moved to: Demo Scheduled (via CRM_UI)''
      = ''Demo Scheduled''"
    by (simp add: str_strip_def is_space_def)
  have z: "count_of Map.empty k = 0" by (simp add: count_of_def)
  have t: "count_of (all_transitions all_touchpoint_data) k
         = sum_list (map (\<lambda>c. transitions_with_key c k) all_touchpoint_data)"
    by (simp add: all_transitions_def fold_transitions_count z)
  from c e x t show ?thesis
    by (simp add: stages_seen_eq customer_transitions_count)
qed

lemma extracted_stage_and_transition_counts_example:
  "\<not> str_contains ''moved to:'' ''\"Acme Deal\" ''
   \<and> \<not> str_contains ''moved to:'' '' Closed Won ''
   \<and> CHR ''('' \<notin> set '' Closed Won ''
   \<and> prefix ''('' ''(via CRM_UI)''
   \<and> extract_stage (''\"Acme Deal\" '' @ ''moved to:'' @ '' Closed Won '' @ ''(via CRM_UI)'')
       = ''Closed Won''
   \<and> stages_seen (c_touchpoints acme_with_deal) =
       [(Some ''2024-02-01T09:00:00Z'', ''Demo Scheduled''),
        (Some ''2024-03-01T09:00:00Z'', ''Closed Won'')]
   \<and> count_of (all_transitions [acme_with_deal])
         (transition_key ''Demo Scheduled'' ''Closed Won'') = 1"
proof -
  have h1: "\<not> str_contains ''moved to:'' ''\"Acme Deal\" ''" by simp
  have h2: "\<not> str_contains ''moved to:'' '' Closed Won ''" by simp
  have h3: "CHR ''('' \<notin> set '' Closed Won ''" by simp
  have h4: "''(via CRM_UI)'' = [] \<or> prefix ''('' ''(via CRM_UI)''
      \<or> prefix ''moved to:'' ''(via CRM_UI)''" by simp
  note t = extracted_stage_and_transition_counts [OF h1 h2 h3 h4,
      of "c_touchpoints acme_with_deal" acme_with_deal Map.empty
        "transition_key ''Demo Scheduled'' ''Closed Won''" "[acme_with_deal]"]
  have s: "str_strip '' Closed Won '' = ''Closed Won''"
    by (simp add: str_strip_def is_space_def)
  from t s have e: "extract_stage
      (''\"Acme Deal\" '' @ ''moved to:'' @ '' Closed Won '' @ ''(via CRM_UI)'')
       = ''Closed Won''"
    by simp
  have st: "stages_seen (c_touchpoints acme_with_deal) =
       [(Some ''2024-02-01T09:00:00Z'', ''Demo Scheduled''),
        (Some ''2024-03-01T09:00:00Z'', ''Closed Won'')]"
    by code_simp
  have n: "transitions_with_key acme_with_deal
      (transition_key ''Demo Scheduled'' ''Closed Won'') = 1"
    unfolding transitions_with_key_def st by simp
  from t n have k: "count_of (all_transitions [acme_with_deal])
         (transition_key ''Demo Scheduled'' ''Closed Won'') = 1"
    by simp
  from h1 h2 h3 e st k show ?thesis by simp
qed

text \<open>
  C9: the code fails where the claim holds. For the deal named \<^verbatim>\<open>Acme moved to: Pro\<close>
  that moved to Demo Scheduled, the history loop writes a detail that holds the phrase
  twice, inside the deal name and in front of the stage. The analyzer splits at the first
  occurrence and extracts the end of the deal name with its closing quote, \<^verbatim>\<open>Pro\<close> and the quote,
  where the stage of the touchpoint is \<^verbatim>\<open>Demo Scheduled\<close>. The two stage changes of this
  deal are counted as one transition from that text to itself, and the transition from
  Demo Scheduled to Closed Won is not counted; the same history under the name
  \<^verbatim>\<open>Acme Deal\<close> gives the two stages and counts that transition once.
\<close>

theorem repeated_phrase_extracts_piece_of_deal_name:
  "stage_change_touchpoint ''Acme moved to: Pro'' demo_scheduled_entry =
     \<lparr>tp_date = Some ''2024-02-01T09:00:00Z'', tp_type = ''Deal Stage Change'',
      tp_detail = ''\"Acme moved to: Pro\" moved to: Demo Scheduled (via CRM_UI)'',
      tp_source = ''HubSpot Deal'', tp_contact = None\<rparr>
   \<and> extract_stage ''\"Acme moved to: Pro\" moved to: Demo Scheduled (via CRM_UI)'' = ''Pro\"''
   \<and> stages_seen (c_touchpoints acme_renamed_deal) =
       [(Some ''2024-02-01T09:00:00Z'', ''Pro\"''), (Some ''2024-03-01T09:00:00Z'', ''Pro\"'')]
   \<and> count_of (all_transitions [acme_renamed_deal])
        (transition_key ''Demo Scheduled'' ''Closed Won'') = 0
   \<and> count_of (all_transitions [acme_renamed_deal]) (transition_key ''Pro\"'' ''Pro\"'') = 1
   \<and> stages_seen (c_touchpoints acme_with_deal) =
       [(Some ''2024-02-01T09:00:00Z'', ''Demo Scheduled''),
        (Some ''2024-03-01T09:00:00Z'', ''Closed Won'')]
   \<and> count_of (all_transitions [acme_with_deal])
        (transition_key ''Demo Scheduled'' ''Closed Won'') = 1"
  by code_simp

section \<open>Length of the details\<close>

lemma truncate_text_cases:
  "truncate_text (Some t) n =
     (if length (clean_text t) > n then take n (clean_text t) @ ''...'' else clean_text t)"
  by (simp add: truncate_text_def clean_text_def Let_def str_strip_def)

lemma truncate_text_length: "length (truncate_text raw n) \<le> n + 3"
proof (cases raw)
  case None
  then show ?thesis by (simp add: truncate_text_def)
next
  case (Some t)
  then show ?thesis by (simp add: truncate_text_cases)
qed

lemma note_detail_length: "length (note_detail eng_props) \<le> 159"
proof -
  have "length (truncate_text (dict_get_or eng_props ''hs_note_body'' []) 150) \<le> 153"
    using truncate_text_length [of _ 150] by simp
  then show ?thesis by (simp add: note_detail_def Let_def)
qed

lemma communication_detail_length:
  "length (communication_detail eng_props)
     \<le> length (fmt (dict_get_or eng_props ''hs_communication_channel_type'' [])) + 106"
proof -
  have "length (truncate_text (dict_get_or eng_props ''hs_communication_body'' []) 100) \<le> 103"
    using truncate_text_length [of _ 100] by simp
  then show ?thesis by (simp add: communication_detail_def Let_def)
qed

text \<open>
  C4 (as amended). \<^verbatim>\<open>truncate\<close> returns at most \<open>max_len + 3\<close> characters: a cleaned
  text longer than \<open>max_len\<close> is cut to its first \<open>max_len\<close> characters followed by the
  marker \<^verbatim>\<open>...\<close>, so the result ends with the marker and is three characters longer
  than the cap; a cleaned text within the cap is returned as it is. The detail of a note is
  at most 159 characters long (prefix, 150 characters, marker) and the detail of a
  communication at most 106 characters longer than its channel.
\<close>

theorem truncate_adds_marker_beyond_cap:
  "length (truncate_text raw max_len) \<le> max_len + 3
   \<and> (raw = Some t \<and> max_len < length (clean_text t) \<longrightarrow>
        truncate_text raw max_len = take max_len (clean_text t) @ ''...''
        \<and> length (truncate_text raw max_len) = max_len + 3)
   \<and> (raw = Some t \<and> length (clean_text t) \<le> max_len \<longrightarrow>
        truncate_text raw max_len = clean_text t)
   \<and> length (note_detail eng_props) \<le> 159
   \<and> length (communication_detail eng_props)
        \<le> length (fmt (dict_get_or eng_props ''hs_communication_channel_type'' [])) + 106"
  using truncate_text_length [of raw max_len] note_detail_length [of eng_props]
    communication_detail_length [of eng_props]
  by (auto simp: truncate_text_cases)

theorem truncate_adds_marker_beyond_cap_witness:
  "(3::nat) < length (clean_text '' Hello world '')
   \<and> truncate_text (Some '' Hello world '') 3 = ''Hel...''
   \<and> length (clean_text ''Hi'') \<le> 3
   \<and> truncate_text (Some ''Hi'') 3 = ''Hi''"
proof -
  have c1: "clean_text '' Hello world '' = ''Hello world''"
    by (simp add: clean_text_def str_strip_def is_space_def)
  have c2: "clean_text ''Hi'' = ''Hi''"
    by (simp add: clean_text_def str_strip_def is_space_def)
  from truncate_adds_marker_beyond_cap [of "Some '' Hello world ''" 3 "'' Hello world ''"] c1
  have a: "truncate_text (Some '' Hello world '') 3 = ''Hel...''" by simp
  from truncate_adds_marker_beyond_cap [of "Some ''Hi''" 3 "''Hi''"] c2
  have b: "truncate_text (Some ''Hi'') 3 = ''Hi''" by simp
  from a b c1 c2 show ?thesis by simp
qed

text \<open>
  C4 as stated fails: a text of 121 characters truncated at 120 has 123 characters, and
  the detail of a First Touch touchpoint is not truncated at all: with a URL of 200
  characters the record of the customer holds a detail of 223 characters.
\<close>

theorem detail_longer_than_cap_counterexample:
  "length (truncate_text (Some (replicate 121 (CHR ''a''))) 120) = 123
   \<and> map_sum id (\<lambda>c. map (\<lambda>t. (tp_type t, length (tp_detail t))) (c_touchpoints c))
        (process_journey crm_with_ann (journey_of_contact contact_with_date))
      = Inr [(''First Touch'', 223), (''Platform Signup'', 33)]"
  by code_simp

section \<open>Records of the output\<close>

lemma process_journey_record:
  assumes "process_journey remote journey = Inr c"
  shows "c_total_touchpoints c = length (c_touchpoints c)
    \<and> (\<exists>raw. sort_and_dedup raw = Inr (c_touchpoints c))"
  using assms
  by (auto simp: process_journey_def split: option.splits sum.splits prod.splits)

lemma journey_loop_all:
  assumes "journey_loop remote journeys acc = Inr data"
    and "\<forall>c\<in>set acc. P c"
    and "\<And>j c. process_journey remote j = Inr c \<Longrightarrow> P c"
  shows "\<forall>c\<in>set data. P c"
  using assms(1,2)
proof (induction journeys arbitrary: acc)
  case Nil
  then show ?case by simp
next
  case (Cons j js)
  from Cons.prems(1) obtain c where c: "process_journey remote j = Inr c"
      and rest: "journey_loop remote js (acc @ [c]) = Inr data"
    by (auto split: sum.splits)
  from Cons.prems(2) assms(3) [OF c] have "\<forall>x\<in>set (acc @ [c]). P x" by simp
  from Cons.IH [OF rest this] show ?case .
qed

lemma journey_loop_length:
  "journey_loop remote journeys acc = Inr data \<Longrightarrow> length data = length acc + length journeys"
  by (induction journeys arbitrary: acc) (auto split: sum.splits)

text \<open>
  C10. When the run over the journeys returns, it has one record per journey, and in every
  record \<open>total_touchpoints\<close> is the length of \<open>touchpoints\<close>, which is an output of the
  sort/dedup step.
\<close>

theorem total_touchpoints_is_length:
  assumes "journey_loop remote journeys [] = Inr all_touchpoint_data"
  shows "length all_touchpoint_data = length journeys
    \<and> (\<forall>c\<in>set all_touchpoint_data.
          c_total_touchpoints c = length (c_touchpoints c)
          \<and> (\<exists>raw. sort_and_dedup raw = Inr (c_touchpoints c)))"
proof -
  have "\<forall>c\<in>set all_touchpoint_data.
          c_total_touchpoints c = length (c_touchpoints c)
          \<and> (\<exists>raw. sort_and_dedup raw = Inr (c_touchpoints c))"
    by (rule journey_loop_all [OF assms]) (simp, rule process_journey_record)
  with journey_loop_length [OF assms] show ?thesis by simp
qed

theorem total_touchpoints_is_length_witness:
  "journey_loop empty_crm [journey_of_contact contact_with_date] [] =
     Inr [\<lparr>c_company = ''Acme'', c_tenant_id = None,
        c_lifecycle_stage = Some ''Unknown'',
        c_deal_stage = Some ''Closed Won'', c_deal_amount = None,
        c_first_touch = None, c_cognito_signup = None,
        c_source = Some ''Unknown'',
        c_touchpoints =
          [\<lparr>tp_date = Some ''2024-01-08T09:00:00Z'',
              tp_type = ''Platform Signup'',
              tp_detail = ''ann@acme.com created Cognito account'',
              tp_source = ''Cognito'', tp_contact = None\<rparr>],
        c_contact_details = [], c_total_touchpoints = 1\<rparr>]
   \<and> length [journey_of_contact contact_with_date] = 1"
proof -
  have h: "journey_loop empty_crm [journey_of_contact contact_with_date] [] =
     Inr [\<lparr>c_company = ''Acme'', c_tenant_id = None,
        c_lifecycle_stage = Some ''Unknown'',
        c_deal_stage = Some ''Closed Won'', c_deal_amount = None,
        c_first_touch = None, c_cognito_signup = None,
        c_source = Some ''Unknown'',
        c_touchpoints =
          [\<lparr>tp_date = Some ''2024-01-08T09:00:00Z'',
              tp_type = ''Platform Signup'',
              tp_detail = ''ann@acme.com created Cognito account'',
              tp_source = ''Cognito'', tp_contact = None\<rparr>],
        c_contact_details = [], c_total_touchpoints = 1\<rparr>]"
    by code_simp
  from total_touchpoints_is_length [OF h] h show ?thesis by simp
qed

section \<open>Contacts that are not in the CRM\<close>

lemma contact_loop_keeps:
  "contact_loop remote cs tps d = Inr (tps', d') \<Longrightarrow> set tps \<subseteq> set tps'"
proof (induction cs arbitrary: tps d)
  case Nil
  then show ?case by simp
next
  case (Cons contact cs)
  from Cons.prems show ?case
    by (auto split: sum.splits option.splits dest!: Cons.IH)
qed

lemma contact_loop_not_found_step:
  assumes "contact_email contact = Inr email" "get_contact_by_email remote email = None"
  shows "contact_loop remote (contact # contacts) tps d
    = contact_loop remote contacts (tps @ [not_found_touchpoint email contact]) d"
  using assms by simp

lemma contact_loop_not_found_in:
  assumes "contact_loop remote cs tps d = Inr (tps', d')" "contact \<in> set cs"
    "contact_email contact = Inr email" "get_contact_by_email remote email = None"
  shows "not_found_touchpoint email contact \<in> set tps'"
  using assms(1,2)
proof (induction cs arbitrary: tps d)
  case Nil
  then show ?case by simp
next
  case (Cons x cs)
  show ?case
  proof (cases "x = contact")
    case True
    with Cons.prems(1) assms(3,4)
    have "contact_loop remote cs (tps @ [not_found_touchpoint email contact]) d = Inr (tps', d')"
      by simp
    from contact_loop_keeps [OF this] show ?thesis by simp
  next
    case False
    with Cons.prems(2) have in_cs: "contact \<in> set cs" by simp
    from Cons.prems(1) obtain tps2 d2 where "contact_loop remote cs tps2 d2 = Inr (tps', d')"
      by (auto split: sum.splits option.splits)
    from Cons.IH [OF this in_cs] show ?thesis .
  qed
qed

lemma unmatched_null_created_never_succeeds:
  assumes "contact \<in> set (j_contacts journey)" "contact_email contact = Inr email"
    "get_contact_by_email remote email = None" "contact ''created'' = Some None"
  shows "process_journey remote journey \<noteq> Inr c"
proof
  assume ok: "process_journey remote journey = Inr c"
  then obtain tps d dtps where loop: "contact_loop remote (j_contacts journey) [] [] = Inr (tps, d)"
      and sd: "sort_and_dedup (tps @ dtps) = Inr (c_touchpoints c)"
    by (auto simp: process_journey_def split: option.splits sum.splits prod.splits)
  from contact_loop_not_found_in [OF loop assms(1-3)]
  have "not_found_touchpoint email contact \<in> set (sort_touchpoints (tps @ dtps))"
    by (simp add: sort_touchpoints_def)
  moreover have "tp_date (not_found_touchpoint email contact) = None"
    using assms(4) by (simp add: not_found_touchpoint_def dict_get_or_def)
  moreover from sd have "\<forall>t\<in>set (sort_touchpoints (tps @ dtps)). tp_date t \<noteq> None"
    by (simp add: sort_and_dedup_def dedup_Inr_iff)
  ultimately show False by blast
qed

lemma dated_touch: "truthy d \<Longrightarrow> dated (touch d ty detail src email)"
  by (simp add: dated_def touch_def truthy_def split: option.splits)

lemma in_optional_singleton: "(t \<in> set (if b then [x] else [])) = (b \<and> t = x)"
  by (cases b) auto

lemma contact_property_touchpoints_dated:
  assumes "t \<in> set (contact_property_touchpoints email props contact)"
  shows "dated t"
proof -
  from assms have "\<exists>d ty detail src. truthy d \<and> t = touch d ty detail src email"
    unfolding contact_property_touchpoints_def Let_def set_append Un_iff in_optional_singleton
    by blast
  then show ?thesis by (auto intro: dated_touch)
qed

text \<open>
  C8: the code fails where the claim holds. For a contact that is not in the CRM and whose
  \<^verbatim>\<open>created\<close> is \<^verbatim>\<open>null\<close>, the loop over the contacts appends one Platform Signup
  touchpoint with the date \<^verbatim>\<open>None\<close> and goes on, but the dedup step then raises
  \<^verbatim>\<open>TypeError\<close> on that date and the run ends without a record for the customer. The
  same contact with no \<^verbatim>\<open>created\<close> key gives a record with one touchpoint, and a contact
  that is found never contributes a touchpoint without a date.
\<close>

theorem unmatched_contact_null_created_fails:
  "get_contact_by_email empty_crm ''ann@acme.com'' = None
   \<and> contact_loop empty_crm [contact_null_date] [] [] =
       Inr ([\<lparr>tp_date = None, tp_type = ''Platform Signup'',
               tp_detail = ''ann@acme.com created Cognito account'',
               tp_source = ''Cognito'', tp_contact = None\<rparr>], [])
   \<and> process_journey empty_crm (journey_of_contact contact_null_date) = Inl TypeError
   \<and> journey_loop empty_crm [journey_of_contact contact_null_date] [] = Inl TypeError
   \<and> map_sum id c_total_touchpoints
        (process_journey empty_crm (journey_of_contact contact_without_date)) = Inr 1"
  by code_simp

end
